theory Spec2Isabelle
  imports
    Complex_Main
    "HOL-Library.Sublist"
    "HOL-Library.AList"
    "HOL-Library.Char_ord"
    "HOL-Library.List_Lexorder"
    "HOL-Library.Product_Lexorder"
    "HOL-Library.Multiset"
begin

section \<open>Python values\<close>

text \<open>
  The agents pass around JSON-shaped Python values: the language model's parsed output,
  the data payload of a response, the rows of a report. A dictionary is an association
  list in insertion order whose keys are distinct (\<open>AList.update\<close> keeps that, and is
  what \<^verbatim>\<open>d[k] = v\<close> does: an existing key keeps its place, a new key goes last).
  Numbers are rationals: the comparisons of the source never leave the range where a
  float and the rational it was read from compare alike.
\<close>

datatype json =
    JNull
  | JBool bool
  | JNum rat
  | JStr string
  | JList "json list"
  | JDict "(string \<times> json) list"

type_synonym py_dict = "(string \<times> json) list"

text \<open>
  Exceptions are values. Only subclasses of \<^verbatim>\<open>Exception\<close> are modelled: the class and
  the message that \<^verbatim>\<open>str(e)\<close> gives.
\<close>

datatype exn_class =
    TypeError
  | AttributeError
  | ValueError
  | GA4PropertyError
  | GA4APIError
  | ValidationError
  | NotImplementedError
  | OtherException

datatype py_exception = Raised exn_class string

fun exn_class_of :: "py_exception \<Rightarrow> exn_class" where
  "exn_class_of (Raised c m) = c"

fun str_of_exn :: "py_exception \<Rightarrow> string" where
  "str_of_exn (Raised c m) = m"

definition dict_contains :: "py_dict \<Rightarrow> string \<Rightarrow> bool" where
  "dict_contains d k = (map_of d k \<noteq> None)"

definition dict_get :: "py_dict \<Rightarrow> string \<Rightarrow> json \<Rightarrow> json" where
  "dict_get d k dflt = (case map_of d k of None \<Rightarrow> dflt | Some v \<Rightarrow> v)"

text \<open>\<^verbatim>\<open>type(x).__name__\<close>, as the interpreter's messages print it.\<close>

fun py_type_name :: "json \<Rightarrow> string" where
  "py_type_name JNull = ''NoneType''"
| "py_type_name (JBool b) = ''bool''"
| "py_type_name (JNum q) = (if q \<in> \<int> then ''int'' else ''float'')"
| "py_type_name (JStr s) = ''str''"
| "py_type_name (JList xs) = ''list''"
| "py_type_name (JDict d) = ''dict''"

text \<open>\<^verbatim>\<open>len(x)\<close>: defined on strings, lists and dictionaries, a TypeError elsewhere.\<close>

fun py_len :: "json \<Rightarrow> py_exception + nat" where
  "py_len (JStr s) = Inr (length s)"
| "py_len (JList xs) = Inr (length xs)"
| "py_len (JDict d) = Inr (length d)"
| "py_len v = Inl (Raised TypeError (''object of type '' @ [CHR 0x27] @ py_type_name v @ [CHR 0x27] @ '' has no len()''))"

text \<open>\<^verbatim>\<open>max(xs)\<close> on a list that the caller has checked to be non-empty.\<close>

fun max_list :: "nat list \<Rightarrow> nat" where
  "max_list [] = 0"
| "max_list (x # xs) = fold max xs x"

section \<open>response_formatter.py\<close>

record agent_response =
  answer :: string
  data :: "py_dict option"
  agent_used :: string

definition HYBRID_THRESHOLD_ROWS :: nat where
  "HYBRID_THRESHOLD_ROWS = 10"

definition HYBRID_THRESHOLD_COMPLEXITY :: nat where
  "HYBRID_THRESHOLD_COMPLEXITY = 5"

definition format_natural_language :: "string \<Rightarrow> string \<Rightarrow> agent_response" where
  "format_natural_language ans agent = \<lparr>answer = ans, data = None, agent_used = agent\<rparr>"

text \<open>\<^verbatim>\<open>data or {}\<close>: an absent or empty payload becomes the empty dictionary.\<close>

definition format_json :: "py_dict option \<Rightarrow> string \<Rightarrow> agent_response" where
  "format_json dat agent =
     \<lparr>answer = ''Results returned in JSON format'',
      data = Some (case dat of None \<Rightarrow> [] | Some d \<Rightarrow> d),
      agent_used = agent\<rparr>"

definition format_hybrid :: "string \<Rightarrow> py_dict \<Rightarrow> string \<Rightarrow> agent_response" where
  "format_hybrid ans d agent = \<lparr>answer = ans, data = Some d, agent_used = agent\<rparr>"

text \<open>
  The inner function of \<^verbatim>\<open>_is_complex_structure\<close>. The walk stops as soon as the level
  is above the complexity threshold and returns the level it has reached.
\<close>

fun count_nesting :: "json \<Rightarrow> nat \<Rightarrow> nat" where
  "count_nesting (JDict d) level =
     (if level > HYBRID_THRESHOLD_COMPLEXITY then level
      else if d = [] then level
      else max_list (map (\<lambda>kv. count_nesting (snd kv) (level + 1)) d))"
| "count_nesting (JList xs) level =
     (if level > HYBRID_THRESHOLD_COMPLEXITY then level
      else if xs = [] then level
      else max_list (map (\<lambda>item. count_nesting item (level + 1)) xs))"
| "count_nesting obj level = level"

fun is_complex_structure :: "json \<Rightarrow> bool" where
  "is_complex_structure (JDict d) = (count_nesting (JDict d) 0 > 3)"
| "is_complex_structure obj = False"

text \<open>
  \<^verbatim>\<open>ResponseFormatter._should_use_hybrid\<close>. The three checks run in the order of the
  source; \<^verbatim>\<open>len\<close> of a \<^verbatim>\<open>rows\<close> entry that has no length raises before the later checks.
\<close>

definition rf_should_use_hybrid :: "py_dict option \<Rightarrow> py_exception + bool" where
  "rf_should_use_hybrid dat =
     (case dat of
        None \<Rightarrow> Inr False
      | Some d \<Rightarrow>
          if d = [] then Inr False
          else
            (case (if dict_contains d ''rows''
                   then (case py_len (dict_get d ''rows'' (JList [])) of
                           Inl e \<Rightarrow> Inl e
                         | Inr row_count \<Rightarrow> Inr (row_count > HYBRID_THRESHOLD_ROWS))
                   else Inr False) of
               Inl e \<Rightarrow> Inl e
             | Inr many_rows \<Rightarrow>
                 if many_rows then Inr True
                 else if length (filter (prefix ''source_'') (map fst d)) \<ge> 2 then Inr True
                 else if is_complex_structure (JDict d) then Inr True
                 else Inr False))"

definition format_response ::
  "string \<Rightarrow> py_dict option \<Rightarrow> string \<Rightarrow> bool \<Rightarrow> py_exception + agent_response" where
  "format_response ans dat agent json_requested =
     (if json_requested then Inr (format_json dat agent)
      else
        (case rf_should_use_hybrid dat of
           Inl e \<Rightarrow> Inl e
         | Inr hybrid \<Rightarrow>
             if hybrid then Inr (format_hybrid ans (the dat) agent)
             else Inr (format_natural_language ans agent)))"

subsection \<open>The rule cascade in the words of the specification\<close>

text \<open>
  The nesting depth of a payload: one level for every non-empty mapping or sequence on
  the deepest path, with no cap.
\<close>

fun nesting_depth :: "json \<Rightarrow> nat" where
  "nesting_depth (JDict d) =
     (if d = [] then 0 else 1 + max_list (map (\<lambda>kv. nesting_depth (snd kv)) d))"
| "nesting_depth (JList xs) =
     (if xs = [] then 0 else 1 + max_list (map nesting_depth xs))"
| "nesting_depth obj = 0"

text \<open>The row count of a payload: the length of its \<^verbatim>\<open>rows\<close> entry, 0 without one.\<close>

definition row_count_of :: "py_dict \<Rightarrow> py_exception + nat" where
  "row_count_of d = (case map_of d ''rows'' of None \<Rightarrow> Inr 0 | Some v \<Rightarrow> py_len v)"

definition source_count_of :: "py_dict \<Rightarrow> nat" where
  "source_count_of d = length (filter (prefix ''source_'') (map fst d))"

datatype response_format = NL | JSON | Hybrid

text \<open>The four rules of the format selector, in order.\<close>

definition select_format :: "bool \<Rightarrow> py_dict option \<Rightarrow> py_exception + response_format" where
  "select_format explicit_json payload =
     (if explicit_json then Inr JSON
      else if payload = None \<or> payload = Some [] then Inr NL
      else
        (case row_count_of (the payload) of
           Inl e \<Rightarrow> Inl e
         | Inr n \<Rightarrow>
             if n > 10 \<or> source_count_of (the payload) \<ge> 2
                \<or> nesting_depth (JDict (the payload)) > 3
             then Inr Hybrid else Inr NL))"

text \<open>What each format returns.\<close>

fun render :: "response_format \<Rightarrow> string \<Rightarrow> py_dict option \<Rightarrow> string \<Rightarrow> agent_response" where
  "render JSON ans payload agent =
     \<lparr>answer = ''Results returned in JSON format'',
      data = Some (case payload of None \<Rightarrow> [] | Some d \<Rightarrow> d),
      agent_used = agent\<rparr>"
| "render Hybrid ans payload agent = \<lparr>answer = ans, data = payload, agent_used = agent\<rparr>"
| "render NL ans payload agent = \<lparr>answer = ans, data = None, agent_used = agent\<rparr>"

section \<open>Properties of the format selector\<close>

lemma max_list_Max: "xs \<noteq> [] \<Longrightarrow> max_list xs = Max (set xs)"
proof (cases xs)
  case Nil
  assume "xs \<noteq> []"
  with Nil show ?thesis by simp
next
  case (Cons a list)
  then show ?thesis
    using Max.set_eq_fold [of a list] by simp
qed

lemma max_list_map_min:
  assumes "xs \<noteq> []"
  shows "max_list (map (\<lambda>x. min (a + g x) c) xs) = min (a + max_list (map g xs)) (c::nat)"
proof -
  have m: "mono (\<lambda>n::nat. min (a + n) c)"
    by (rule monoI) simp
  have "max_list (map (\<lambda>x. min (a + g x) c) xs) = Max ((\<lambda>x. min (a + g x) c) ` set xs)"
    using assms by (simp add: max_list_Max)
  also have "(\<lambda>x. min (a + g x) c) ` set xs = (\<lambda>n. min (a + n) c) ` (g ` set xs)"
    by (simp add: image_image)
  also have "Max \<dots> = min (a + Max (g ` set xs)) c"
    using assms mono_Max_commute [OF m, of "g ` set xs"] by simp
  also have "Max (g ` set xs) = max_list (map g xs)"
    using assms by (simp add: max_list_Max)
  finally show ?thesis .
qed

lemma count_nesting_capped:
  "level \<le> 6 \<Longrightarrow> count_nesting obj level = min (level + nesting_depth obj) 6"
proof (induction obj level rule: count_nesting.induct)
  case (1 d level)
  show ?case
  proof (cases "level > 5 \<or> d = []")
    case True
    with "1.prems" show ?thesis
      by (auto simp: HYBRID_THRESHOLD_COMPLEXITY_def)
  next
    case False
    then have ne: "d \<noteq> []" and le: "level \<le> 5" by auto
    have "map (\<lambda>kv. count_nesting (snd kv) (level + 1)) d
          = map (\<lambda>kv. min (Suc level + nesting_depth (snd kv)) 6) d"
      using "1.IH" ne le
      by (intro map_cong [OF refl]) (simp add: HYBRID_THRESHOLD_COMPLEXITY_def)
    then have "max_list (map (\<lambda>kv. count_nesting (snd kv) (level + 1)) d)
          = max_list (map (\<lambda>kv. min (Suc level + nesting_depth (snd kv)) 6) d)"
      by (simp only:)
    moreover have "count_nesting (JDict d) level
          = max_list (map (\<lambda>kv. count_nesting (snd kv) (level + 1)) d)"
      using ne le by (simp add: HYBRID_THRESHOLD_COMPLEXITY_def)
    ultimately have "count_nesting (JDict d) level
          = max_list (map (\<lambda>kv. min (Suc level + nesting_depth (snd kv)) 6) d)"
      by (simp only:)
    also have "\<dots> = min (Suc level + max_list (map (\<lambda>kv. nesting_depth (snd kv)) d)) 6"
      using ne by (rule max_list_map_min)
    finally show ?thesis using ne by simp
  qed
next
  case (2 xs level)
  show ?case
  proof (cases "level > 5 \<or> xs = []")
    case True
    with "2.prems" show ?thesis
      by (auto simp: HYBRID_THRESHOLD_COMPLEXITY_def)
  next
    case False
    then have ne: "xs \<noteq> []" and le: "level \<le> 5" by auto
    have "map (\<lambda>item. count_nesting item (level + 1)) xs
          = map (\<lambda>item. min (Suc level + nesting_depth item) 6) xs"
      using "2.IH" ne le
      by (intro map_cong [OF refl]) (simp add: HYBRID_THRESHOLD_COMPLEXITY_def)
    then have "max_list (map (\<lambda>item. count_nesting item (level + 1)) xs)
          = max_list (map (\<lambda>item. min (Suc level + nesting_depth item) 6) xs)"
      by (simp only:)
    moreover have "count_nesting (JList xs) level
          = max_list (map (\<lambda>item. count_nesting item (level + 1)) xs)"
      using ne le by (simp add: HYBRID_THRESHOLD_COMPLEXITY_def)
    ultimately have "count_nesting (JList xs) level
          = max_list (map (\<lambda>item. min (Suc level + nesting_depth item) 6) xs)"
      by (simp only:)
    also have "\<dots> = min (Suc level + max_list (map nesting_depth xs)) 6"
      using ne by (rule max_list_map_min)
    finally show ?thesis using ne by simp
  qed
qed simp_all

lemma is_complex_structure_depth:
  "is_complex_structure (JDict d) \<longleftrightarrow> nesting_depth (JDict d) > 3"
proof -
  have "count_nesting (JDict d) 0 = min (nesting_depth (JDict d)) 6"
    using count_nesting_capped [of 0 "JDict d"] by simp
  then show ?thesis by auto
qed

lemma rf_should_use_hybrid_rules:
  "rf_should_use_hybrid (Some d) =
     (if d = [] then Inr False
      else case row_count_of d of
             Inl e \<Rightarrow> Inl e
           | Inr n \<Rightarrow> Inr (n > 10 \<or> source_count_of d \<ge> 2 \<or> nesting_depth (JDict d) > 3))"
proof (cases "map_of d ''rows''")
  case None
  then show ?thesis
    unfolding rf_should_use_hybrid_def row_count_of_def source_count_of_def dict_contains_def
    by (simp add: is_complex_structure_depth
        del: is_complex_structure.simps count_nesting.simps nesting_depth.simps)
next
  case (Some v)
  then show ?thesis
    unfolding rf_should_use_hybrid_def row_count_of_def source_count_of_def dict_contains_def
      dict_get_def HYBRID_THRESHOLD_ROWS_def
    by (cases "py_len v")
      (auto simp add: is_complex_structure_depth
        simp del: is_complex_structure.simps count_nesting.simps nesting_depth.simps)
qed

text \<open>
  C3. \<^verbatim>\<open>format_response\<close> is a function of its arguments alone and follows the rule
  cascade: JSON when it was asked for (the payload attached, an empty dictionary for an
  absent one, and the fixed confirmation as answer); otherwise natural language with no
  data for an absent or empty payload; otherwise hybrid exactly when the row count is
  above 10, or at least two keys start with \<^verbatim>\<open>source_\<close>, or the nesting depth is above 3;
  otherwise natural language with the payload suppressed. The walk that measures the depth
  goes no further than one level above the threshold of 5, so it never reports more than
  6, and it is above 3 exactly when the uncapped depth is. (A \<^verbatim>\<open>rows\<close> entry that has no
  length makes \<^verbatim>\<open>len\<close> raise; the selector raises with it.)
\<close>

theorem format_response_cascade:
  "format_response ans payload agent explicit_json =
     (case select_format explicit_json payload of
        Inl e \<Rightarrow> Inl e
      | Inr fmt \<Rightarrow> Inr (render fmt ans payload agent))
   \<and> count_nesting (JDict d) 0 \<le> 6
   \<and> (count_nesting (JDict d) 0 > 3 \<longleftrightarrow> nesting_depth (JDict d) > 3)"
proof (intro conjI)
  show "format_response ans payload agent explicit_json =
     (case select_format explicit_json payload of
        Inl e \<Rightarrow> Inl e
      | Inr fmt \<Rightarrow> Inr (render fmt ans payload agent))"
  proof (cases payload)
    case None
    then show ?thesis
      by (simp add: format_response_def select_format_def rf_should_use_hybrid_def
          format_json_def format_natural_language_def)
  next
    case (Some p)
    show ?thesis
    proof (cases "row_count_of p")
      case (Inl e)
      with Some show ?thesis
        by (simp add: format_response_def select_format_def rf_should_use_hybrid_rules
            format_json_def format_natural_language_def format_hybrid_def)
    next
      case (Inr n)
      with Some show ?thesis
        by (simp add: format_response_def select_format_def rf_should_use_hybrid_rules
            format_json_def format_natural_language_def format_hybrid_def)
    qed
  qed
next
  have c: "count_nesting (JDict d) 0 = min (nesting_depth (JDict d)) 6"
    using count_nesting_capped [of 0 "JDict d"] by simp
  show "count_nesting (JDict d) 0 \<le> 6" using c by simp
  show "count_nesting (JDict d) 0 > 3 \<longleftrightarrow> nesting_depth (JDict d) > 3" using c by auto
qed

section \<open>Python strings\<close>

text \<open>
  Strings are sequences of characters with code points below 256. \<^verbatim>\<open>str.lower\<close> maps
  the 26 capital letters and the 30 capital letters of the range U+00C0 to U+00DE (the
  multiplication sign U+00D7 is not one) and leaves every other character alone;
  \<^verbatim>\<open>str.strip\<close> removes the white space of \<^verbatim>\<open>str.isspace\<close> from both ends: the blank, the
  controls U+0009 to U+000D and U+001C to U+001F, the next-line control U+0085 and the
  no-break space U+00A0.
\<close>

definition LATIN1_UPPER :: string where
  "LATIN1_UPPER =
     [CHR 0xC0, CHR 0xC1, CHR 0xC2, CHR 0xC3, CHR 0xC4, CHR 0xC5, CHR 0xC6, CHR 0xC7,
      CHR 0xC8, CHR 0xC9, CHR 0xCA, CHR 0xCB, CHR 0xCC, CHR 0xCD, CHR 0xCE, CHR 0xCF,
      CHR 0xD0, CHR 0xD1, CHR 0xD2, CHR 0xD3, CHR 0xD4, CHR 0xD5, CHR 0xD6, CHR 0xD8,
      CHR 0xD9, CHR 0xDA, CHR 0xDB, CHR 0xDC, CHR 0xDD, CHR 0xDE]"

definition LATIN1_LOWER :: string where
  "LATIN1_LOWER =
     [CHR 0xE0, CHR 0xE1, CHR 0xE2, CHR 0xE3, CHR 0xE4, CHR 0xE5, CHR 0xE6, CHR 0xE7,
      CHR 0xE8, CHR 0xE9, CHR 0xEA, CHR 0xEB, CHR 0xEC, CHR 0xED, CHR 0xEE, CHR 0xEF,
      CHR 0xF0, CHR 0xF1, CHR 0xF2, CHR 0xF3, CHR 0xF4, CHR 0xF5, CHR 0xF6, CHR 0xF8,
      CHR 0xF9, CHR 0xFA, CHR 0xFB, CHR 0xFC, CHR 0xFD, CHR 0xFE]"

definition lower_char :: "char \<Rightarrow> char" where
  "lower_char c =
     (case map_of (zip (''ABCDEFGHIJKLMNOPQRSTUVWXYZ'' @ LATIN1_UPPER)
                       (''abcdefghijklmnopqrstuvwxyz'' @ LATIN1_LOWER)) c of
        None \<Rightarrow> c
      | Some l \<Rightarrow> l)"

definition py_lower :: "string \<Rightarrow> string" where
  "py_lower s = map lower_char s"

definition is_space :: "char \<Rightarrow> bool" where
  "is_space c =
     (c \<in> set [CHR '' '', CHR 0x09, CHR 0x0A, CHR 0x0B, CHR 0x0C, CHR 0x0D,
               CHR 0x1C, CHR 0x1D, CHR 0x1E, CHR 0x1F, CHR 0x85, CHR 0xA0])"

definition py_strip :: "string \<Rightarrow> string" where
  "py_strip s = rev (dropWhile is_space (rev (dropWhile is_space s)))"

text \<open>\<^verbatim>\<open>sub in s\<close> on strings: \<open>sub\<close> occurs in \<open>s\<close> as a contiguous piece.\<close>

fun py_in_str :: "string \<Rightarrow> string \<Rightarrow> bool" where
  "py_in_str sub [] = (sub = [])"
| "py_in_str sub (c # cs) = (prefix sub (c # cs) \<or> py_in_str sub cs)"

fun py_join :: "string \<Rightarrow> string list \<Rightarrow> string" where
  "py_join sep [] = []"
| "py_join sep [x] = x"
| "py_join sep (x # y # ys) = x @ sep @ py_join sep (y # ys)"

text \<open>A Python string in single quotes, as the f-strings of the agents write it.\<close>

definition quoted :: "string \<Rightarrow> string" where
  "quoted s = [CHR 0x27] @ s @ [CHR 0x27]"

section \<open>difflib\<close>

text \<open>
  The agents measure similarity with \<^verbatim>\<open>difflib.SequenceMatcher(None, a, b).ratio()\<close> of
  the standard library. The functions of the agents take that measure as their first
  argument \<open>ratio\<close>, so what is proved of them holds for the library's measure whatever
  it computes. For concrete inputs the measure is \<open>seq_ratio\<close> below, written from the
  library's algorithm: the longest matching block (the one that starts earliest in \<open>a\<close>,
  then earliest in \<open>b\<close>), then recursively the pieces to its left and to its right;
  \<open>ratio = 2 * matches / (len a + len b)\<close>, and 1 when both are empty. It is the
  library's value as long as \<open>b\<close> has fewer than 200 elements (beyond that the library
  first sets aside elements that are too frequent).
\<close>

fun common_prefix_len :: "'a list \<Rightarrow> 'a list \<Rightarrow> nat" where
  "common_prefix_len (x # xs) (y # ys) = (if x = y then Suc (common_prefix_len xs ys) else 0)"
| "common_prefix_len xs ys = 0"

definition longest_step ::
  "'a list \<Rightarrow> 'a list \<Rightarrow> nat \<times> nat \<Rightarrow> nat \<times> nat \<times> nat \<Rightarrow> nat \<times> nat \<times> nat" where
  "longest_step a b ij best =
     (let k = common_prefix_len (drop (fst ij) a) (drop (snd ij) b)
      in if k > snd (snd best) then (fst ij, snd ij, k) else best)"

definition find_longest_match :: "'a list \<Rightarrow> 'a list \<Rightarrow> nat \<times> nat \<times> nat" where
  "find_longest_match a b =
     fold (longest_step a b) (List.product [0..<length a] [0..<length b]) (0, 0, 0)"

lemma fold_longest_step_inv:
  "(\<forall>ij \<in> set ps. fst ij < length a \<and> snd ij < length b) \<Longrightarrow>
   (snd (snd best) > 0 \<longrightarrow> fst best < length a \<and> fst (snd best) < length b) \<Longrightarrow>
   fold (longest_step a b) ps best = (i, j, k) \<Longrightarrow> k > 0 \<Longrightarrow>
   i < length a \<and> j < length b"
proof (induction ps arbitrary: best)
  case Nil
  then show ?case by auto
next
  case (Cons p ps)
  show ?case
  proof (rule Cons.IH [of "longest_step a b p best"])
    show "\<forall>ij\<in>set ps. fst ij < length a \<and> snd ij < length b"
      using Cons.prems(1) by simp
    show "0 < snd (snd (longest_step a b p best)) \<longrightarrow>
          fst (longest_step a b p best) < length a
          \<and> fst (snd (longest_step a b p best)) < length b"
      using Cons.prems(1,2) by (auto simp: longest_step_def Let_def)
    show "fold (longest_step a b) ps (longest_step a b p best) = (i, j, k)"
      using Cons.prems(3) by simp
    show "0 < k" by fact
  qed
qed

lemma find_longest_match_bounds:
  "find_longest_match a b = (i, j, k) \<Longrightarrow> k > 0 \<Longrightarrow> i < length a \<and> j < length b"
  unfolding find_longest_match_def
  by (rule fold_longest_step_inv
      [where ps = "List.product [0..<length a] [0..<length b]"
         and best = "(0::nat, 0::nat, 0::nat)"]) auto

function matching_size :: "'a list \<Rightarrow> 'a list \<Rightarrow> nat" where
  "matching_size a b =
     (case find_longest_match a b of
        (i, j, k) \<Rightarrow>
          if k = 0 then 0
          else matching_size (take i a) (take j b) + k
               + matching_size (drop (i + k) a) (drop (j + k) b))"
  by pat_completeness auto
termination
  apply (relation "measure (\<lambda>(a, b). length a + length b)")
    apply simp
   apply (auto dest!: find_longest_match_bounds [OF sym])
  done

definition seq_ratio :: "string \<Rightarrow> string \<Rightarrow> rat" where
  "seq_ratio a b =
     (if length a + length b = 0 then 1
      else 2 * of_nat (matching_size a b) / of_nat (length a + length b))"

text \<open>
  \<^verbatim>\<open>difflib.get_close_matches(word, possibilities, n, cutoff)\<close>: every possibility \<open>x\<close>
  with \<open>ratio x word \<ge> cutoff\<close> is kept with its score (the two cheaper ratios the library
  tests first are upper bounds of \<open>ratio\<close>), and \<^verbatim>\<open>heapq.nlargest\<close> returns the \<open>n\<close> largest
  pairs (score, string), largest first.
\<close>

definition nlargest :: "nat \<Rightarrow> (rat \<times> string) list \<Rightarrow> (rat \<times> string) list" where
  "nlargest n xs = take n (rev (sort xs))"

definition get_close_matches ::
  "(string \<Rightarrow> string \<Rightarrow> rat) \<Rightarrow> string \<Rightarrow> string list \<Rightarrow> nat \<Rightarrow> rat \<Rightarrow> string list" where
  "get_close_matches ratio word possibilities n cutoff =
     map snd (nlargest n
       (map (\<lambda>x. (ratio x word, x)) (filter (\<lambda>x. ratio x word \<ge> cutoff) possibilities)))"

section \<open>seo_agent.py: the schema resolver\<close>

definition COLUMN_ALIASES :: "(string \<times> string) list" where
  "COLUMN_ALIASES =
     [(''url'', ''Address''),
      (''urls'', ''Address''),
      (''address'', ''Address''),
      (''page'', ''Address''),
      (''pages'', ''Address''),
      (''link'', ''Address''),
      (''links'', ''Address''),
      (''title'', ''Title 1''),
      (''page title'', ''Title 1''),
      (''titles'', ''Title 1''),
      (''title tag'', ''Title 1''),
      (''title tags'', ''Title 1''),
      (''title 1'', ''Title 1''),
      (''title length'', ''Title 1 Length''),
      (''title len'', ''Title 1 Length''),
      (''meta description'', ''Meta Description 1''),
      (''meta descriptions'', ''Meta Description 1''),
      (''description'', ''Meta Description 1''),
      (''descriptions'', ''Meta Description 1''),
      (''meta desc'', ''Meta Description 1''),
      (''meta description 1'', ''Meta Description 1''),
      (''meta description length'', ''Meta Description 1 Length''),
      (''description length'', ''Meta Description 1 Length''),
      (''h1'', ''H1-1''),
      (''h1s'', ''H1-1''),
      (''h1 tag'', ''H1-1''),
      (''h1 tags'', ''H1-1''),
      (''heading'', ''H1-1''),
      (''headings'', ''H1-1''),
      (''h1-1'', ''H1-1''),
      (''h1 length'', ''H1-1 Length''),
      (''h2'', ''H2-1''),
      (''h2s'', ''H2-1''),
      (''h2-1'', ''H2-1''),
      (''status'', ''Status Code''),
      (''status code'', ''Status Code''),
      (''http status'', ''Status Code''),
      (''response code'', ''Status Code''),
      (''status codes'', ''Status Code''),
      (''indexable'', ''Indexability''),
      (''indexability'', ''Indexability''),
      (''index status'', ''Indexability''),
      (''indexed'', ''Indexability''),
      (''indexability status'', ''Indexability Status''),
      (''word count'', ''Word Count''),
      (''words'', ''Word Count''),
      (''content length'', ''Word Count''),
      (''canonical'', ''Canonical Link Element 1''),
      (''canonical url'', ''Canonical Link Element 1''),
      (''canonical link'', ''Canonical Link Element 1''),
      (''redirect'', ''Redirect URL''),
      (''redirect url'', ''Redirect URL''),
      (''redirects'', ''Redirect URL''),
      (''redirect to'', ''Redirect URL''),
      (''content type'', ''Content Type''),
      (''content'', ''Content Type''),
      (''type'', ''Content Type''),
      (''inlinks'', ''Inlinks''),
      (''internal links'', ''Inlinks''),
      (''outlinks'', ''Outlinks''),
      (''external links'', ''Outlinks''),
      (''unique inlinks'', ''Unique Inlinks''),
      (''unique outlinks'', ''Unique Outlinks''),
      (''size'', ''Size (Bytes)''),
      (''page size'', ''Size (Bytes)''),
      (''response time'', ''Response Time''),
      (''load time'', ''Response Time''),
      (''crawl depth'', ''Crawl Depth''),
      (''depth'', ''Crawl Depth''),
      (''level'', ''Crawl Depth'')]"

definition FUZZY_THRESHOLD :: rat where
  "FUZZY_THRESHOLD = 8 / 10"

text \<open>
  The loop of \<^verbatim>\<open>_fuzzy_match\<close>: the state is (best_match, best_ratio), and a candidate
  replaces the best one only with a strictly larger ratio.
\<close>

definition fuzzy_step ::
  "(string \<Rightarrow> string \<Rightarrow> rat) \<Rightarrow> string \<Rightarrow> string \<Rightarrow> string option \<times> rat \<Rightarrow> string option \<times> rat" where
  "fuzzy_step ratio term_lower candidate best =
     (let r = ratio term_lower (py_lower candidate)
      in if r > snd best then (Some candidate, r) else best)"

definition fuzzy_match ::
  "(string \<Rightarrow> string \<Rightarrow> rat) \<Rightarrow> string \<Rightarrow> string list \<Rightarrow> string option" where
  "fuzzy_match ratio term candidates =
     (if candidates = [] then None
      else
        (let best = fold (fuzzy_step ratio (py_lower term)) candidates (None, 0)
         in if snd best \<ge> FUZZY_THRESHOLD then fst best else None))"

text \<open>
  \<^verbatim>\<open>_get_suggestions\<close>: the close matches of the lower-cased term among the lower-cased
  candidates, cutoff 0.4, each mapped back to the first candidate of that lower-case
  form that is not in the result yet.
\<close>

definition map_back_step :: "string list \<Rightarrow> string \<Rightarrow> string list \<Rightarrow> string list" where
  "map_back_step candidates match result =
     (case find (\<lambda>candidate. py_lower candidate = match \<and> candidate \<notin> set result) candidates of
        None \<Rightarrow> result
      | Some candidate \<Rightarrow> result @ [candidate])"

definition get_suggestions ::
  "(string \<Rightarrow> string \<Rightarrow> rat) \<Rightarrow> string \<Rightarrow> string list \<Rightarrow> nat \<Rightarrow> string list" where
  "get_suggestions ratio term candidates n =
     (if candidates = [] then []
      else fold (map_back_step candidates)
             (get_close_matches ratio (py_lower term) (map py_lower candidates) n (4 / 10)) [])"

text \<open>
  The result of \<^verbatim>\<open>_resolve_single_column\<close>: status \<^verbatim>\<open>resolved\<close> with the column and
  the warning when there is one, or status \<^verbatim>\<open>error\<close> with the message.
\<close>

datatype resolution =
    Resolved string "string option"
  | ResolutionError string

definition unknown_field_message :: "string \<Rightarrow> string list \<Rightarrow> string list \<Rightarrow> string" where
  "unknown_field_message user_field suggestions available_columns =
     ''Unknown field '' @ quoted user_field @ ''.''
     @ (if suggestions \<noteq> [] then '' Did you mean: '' @ py_join '', '' suggestions @ ''?'' else [])
     @ '' Available columns include: '' @ py_join '', '' (take 10 available_columns)
     @ (if length available_columns > 10 then ''...'' else [])"

text \<open>Step 1 of the resolver: the alias map. \<open>None\<close> when the step falls through.\<close>

definition alias_step ::
  "(string \<Rightarrow> string \<Rightarrow> rat) \<Rightarrow> string list \<Rightarrow> string \<Rightarrow> resolution option" where
  "alias_step ratio available_columns user_field =
     (case map_of COLUMN_ALIASES (py_strip (py_lower user_field)) of
        None \<Rightarrow> None
      | Some target_column \<Rightarrow>
          if target_column \<in> set available_columns then Some (Resolved target_column None)
          else
            (case fuzzy_match ratio target_column available_columns of
               None \<Rightarrow> None
             | Some fuzzy_result \<Rightarrow>
                 Some (Resolved fuzzy_result
                   (Some (''Mapped '' @ quoted user_field @ '' to '' @ quoted fuzzy_result
                          @ '' (via alias)'')))))"

definition resolve_single_column ::
  "(string \<Rightarrow> string \<Rightarrow> rat) \<Rightarrow> string list \<Rightarrow> string \<Rightarrow> resolution" where
  "resolve_single_column ratio available_columns user_field =
     (case alias_step ratio available_columns user_field of
        Some r \<Rightarrow> r
      | None \<Rightarrow>
          (case find (\<lambda>col. py_lower col = py_strip (py_lower user_field)) available_columns of
             Some col \<Rightarrow> Resolved col None
           | None \<Rightarrow>
               (case fuzzy_match ratio user_field available_columns of
                  Some fuzzy_result \<Rightarrow>
                    Resolved fuzzy_result
                      (Some (''Interpreted '' @ quoted user_field @ '' as '' @ quoted fuzzy_result
                             @ '' (fuzzy match)''))
                | None \<Rightarrow>
                    ResolutionError
                      (unknown_field_message user_field
                         (get_suggestions ratio user_field available_columns 3)
                         available_columns))))"

section \<open>Properties of the similarity search\<close>

lemma sorted_wrt_subseq:
  "subseq xs ys \<Longrightarrow> sorted_wrt P ys \<Longrightarrow> sorted_wrt P xs"
proof (induction rule: list_emb.induct)
  case (list_emb_Cons xs ys y)
  then show ?case by simp
next
  case (list_emb_Cons2 x y xs ys)
  then have "\<forall>z \<in> set xs. P x z"
    using list_emb_set [of "(=)" xs ys] by auto
  with list_emb_Cons2 show ?case by simp
qed simp

lemma nlargest_length: "length (nlargest n xs) \<le> n"
  by (simp add: nlargest_def)

lemma nlargest_set: "set (nlargest n xs) \<subseteq> set xs"
  using set_take_subset [of n "rev (sort xs)"] by (simp add: nlargest_def)

lemma nlargest_descending: "sorted_wrt (\<lambda>p q. fst p \<ge> fst q) (nlargest n xs)"
proof -
  have "sorted_wrt (\<le>) (sort xs)" by simp
  then have "sorted_wrt (\<lambda>p q. fst p \<le> fst q) (sort xs)"
    by (rule sorted_wrt_mono_rel [rotated]) (auto simp: prod_le_def)
  then have "sorted_wrt (\<lambda>p q. fst p \<ge> fst q) (rev (sort xs))"
    by (simp add: sorted_wrt_rev)
  then show ?thesis
    unfolding nlargest_def by (rule sorted_wrt_take)
qed

lemma get_close_matches_length:
  "length (get_close_matches ratio word possibilities n cutoff) \<le> n"
  by (simp add: get_close_matches_def nlargest_length)

lemma get_close_matches_set:
  assumes "m \<in> set (get_close_matches ratio word possibilities n cutoff)"
  shows "m \<in> set possibilities \<and> ratio m word \<ge> cutoff"
  using assms nlargest_set [of n "map (\<lambda>x. (ratio x word, x)) (filter (\<lambda>x. ratio x word \<ge> cutoff) possibilities)"]
  by (auto simp: get_close_matches_def)

lemma get_close_matches_descending:
  "sorted_wrt (\<lambda>a b. ratio a word \<ge> ratio b word)
     (get_close_matches ratio word possibilities n cutoff)"
proof -
  let ?ps = "map (\<lambda>x. (ratio x word, x)) (filter (\<lambda>x. ratio x word \<ge> cutoff) possibilities)"
  have fst_eq: "fst p = ratio (snd p) word" if "p \<in> set (nlargest n ?ps)" for p
    using that nlargest_set [of n ?ps] by auto
  have "sorted_wrt (\<lambda>p q. fst p \<ge> fst q) (nlargest n ?ps)"
    by (rule nlargest_descending)
  then have "sorted_wrt (\<lambda>p q. ratio (snd p) word \<ge> ratio (snd q) word) (nlargest n ?ps)"
    by (rule sorted_wrt_mono_rel [rotated]) (simp add: fst_eq)
  then show ?thesis
    by (simp add: get_close_matches_def sorted_wrt_map)
qed

lemma map_back_step_cases:
  "map_back_step candidates m acc = acc
   \<or> (\<exists>c \<in> set candidates. py_lower c = m \<and> map_back_step candidates m acc = acc @ [c])"
  by (auto simp: map_back_step_def find_Some_iff split: option.splits)

lemma fold_append_step:
  assumes step: "\<And>m acc. step m acc = acc
                   \<or> (\<exists>c \<in> set candidates. py_lower c = m \<and> step m acc = acc @ [c])"
  shows "\<exists>ys. map py_lower (fold step ms acc) = map py_lower acc @ ys
        \<and> subseq ys ms
        \<and> set (fold step ms acc) \<subseteq> set acc \<union> set candidates"
proof (induction ms arbitrary: acc)
  case Nil
  then show ?case by simp
next
  case (Cons m ms)
  from step [of m acc] show ?case
  proof
    assume same: "step m acc = acc"
    from Cons.IH [of acc] obtain ys where
      "map py_lower (fold step ms acc) = map py_lower acc @ ys"
      "subseq ys ms"
      "set (fold step ms acc) \<subseteq> set acc \<union> set candidates"
      by blast
    with same show ?thesis
      by (intro exI [of _ ys]) (simp add: list_emb_Cons)
  next
    assume "\<exists>c \<in> set candidates. py_lower c = m \<and> step m acc = acc @ [c]"
    then obtain c where c: "c \<in> set candidates" "py_lower c = m" "step m acc = acc @ [c]"
      by blast
    from Cons.IH [of "acc @ [c]"] obtain ys where
      "map py_lower (fold step ms (acc @ [c])) = map py_lower (acc @ [c]) @ ys"
      "subseq ys ms"
      "set (fold step ms (acc @ [c])) \<subseteq> set (acc @ [c]) \<union> set candidates"
      by blast
    with c show ?thesis by (intro exI [of _ "m # ys"]) auto
  qed
qed

text \<open>
  What a list of suggestions inherits from the close matches it was mapped back from:
  no more than \<open>n\<close> entries, each a candidate at or above the cutoff, in descending order
  of similarity.
\<close>

lemma mapped_back_props:
  fixes ratio :: "string \<Rightarrow> string \<Rightarrow> rat" and word :: string and candidates :: "string list"
    and n :: nat and cutoff :: rat and step :: "string \<Rightarrow> string list \<Rightarrow> string list"
  assumes step: "\<And>m acc. step m acc = acc
                   \<or> (\<exists>c \<in> set candidates. py_lower c = m \<and> step m acc = acc @ [c])"
  defines "ms \<equiv> get_close_matches ratio word (map py_lower candidates) n cutoff"
  defines "sg \<equiv> fold step ms []"
  shows "length sg \<le> n
   \<and> (\<forall>s \<in> set sg. s \<in> set candidates \<and> ratio (py_lower s) word \<ge> cutoff)
   \<and> sorted_wrt (\<lambda>s s'. ratio (py_lower s) word \<ge> ratio (py_lower s') word) sg"
proof -
  from fold_append_step [of step candidates ms "[]", OF step] obtain ys where
    ys: "map py_lower sg = ys" "subseq ys ms" "set sg \<subseteq> set candidates"
    unfolding sg_def by auto
  have len: "length sg \<le> n"
  proof -
    have "length sg = length ys" using ys(1) by (metis length_map)
    also have "\<dots> \<le> length ms" using ys(2) by (rule list_emb_length)
    also have "\<dots> \<le> n" unfolding ms_def by (rule get_close_matches_length)
    finally show ?thesis .
  qed
  have mem: "s \<in> set candidates \<and> ratio (py_lower s) word \<ge> cutoff" if "s \<in> set sg" for s
  proof -
    have "py_lower s \<in> set ys" using that ys(1) by auto
    then have "py_lower s \<in> set ms" using list_emb_set [OF ys(2)] by auto
    then have "ratio (py_lower s) word \<ge> cutoff"
      unfolding ms_def by (rule get_close_matches_set [THEN conjunct2])
    with that ys(3) show ?thesis by auto
  qed
  have "sorted_wrt (\<lambda>a b. ratio a word \<ge> ratio b word) ys"
    using ys(2) get_close_matches_descending unfolding ms_def by (rule sorted_wrt_subseq)
  then have "sorted_wrt (\<lambda>s s'. ratio (py_lower s) word \<ge> ratio (py_lower s') word) sg"
    unfolding ys(1) [symmetric] by (simp add: sorted_wrt_map)
  with len mem show ?thesis by blast
qed

lemma get_suggestions_props:
  "length (get_suggestions ratio term candidates n) \<le> n
   \<and> (\<forall>s \<in> set (get_suggestions ratio term candidates n).
         s \<in> set candidates \<and> ratio (py_lower s) (py_lower term) \<ge> 4 / 10)
   \<and> sorted_wrt (\<lambda>s s'. ratio (py_lower s) (py_lower term) \<ge> ratio (py_lower s') (py_lower term))
        (get_suggestions ratio term candidates n)"
proof (cases "candidates = []")
  case True
  then show ?thesis by (simp add: get_suggestions_def)
next
  case False
  then have sg: "get_suggestions ratio term candidates n
      = fold (map_back_step candidates)
          (get_close_matches ratio (py_lower term) (map py_lower candidates) n (4 / 10)) []"
    by (simp add: get_suggestions_def)
  show ?thesis
    unfolding sg
    by (rule mapped_back_props [of "map_back_step candidates" candidates])
       (rule map_back_step_cases)
qed

section \<open>Properties of the schema resolver\<close>

lemmas str_eval =
  py_lower_def lower_char_def LATIN1_UPPER_def LATIN1_LOWER_def py_strip_def is_space_def

text \<open>
  C1 (as amended). Take a term whose lower-cased, stripped form is the lower-cased name
  of a column \<open>c\<close> of the catalog: for a term without white space at its ends, a term
  that is present verbatim, case-insensitively. The exact-match step then has a column to
  return: the first one of that lower-case form, which is \<open>c\<close> itself when the lower-case
  names of the catalog are distinct. The alias step runs first, as the resolver's
  docstring says, and the resolver returns Resolved in every case:
  \<^item> for a term that is not a key of the alias table, that column, with no warning;
  \<^item> for an alias key whose target is a column of the catalog, the alias target, with no
    warning;
  \<^item> for an alias key whose target is not a column, the fuzzy match of the target with
    the warning of the alias route when there is one, and otherwise that column, with no
    warning.

  The fuzzy match of the term itself (step 3) is never reached, and the result never
  carries its warning.
\<close>

theorem resolve_exact_match_after_alias:
  assumes "c \<in> set available_columns"
      and "py_lower c = py_strip (py_lower user_field)"
  shows "\<exists>col. find (\<lambda>col. py_lower col = py_strip (py_lower user_field)) available_columns = Some col
           \<and> col \<in> set available_columns \<and> py_lower col = py_lower c
           \<and> (inj_on py_lower (set available_columns) \<longrightarrow> col = c)
           \<and> resolve_single_column ratio available_columns user_field =
               (case map_of COLUMN_ALIASES (py_strip (py_lower user_field)) of
                  None \<Rightarrow> Resolved col None
                | Some target \<Rightarrow>
                    if target \<in> set available_columns then Resolved target None
                    else
                      (case fuzzy_match ratio target available_columns of
                         None \<Rightarrow> Resolved col None
                       | Some fuzzy_result \<Rightarrow>
                           Resolved fuzzy_result
                             (Some (''Mapped '' @ quoted user_field @ '' to ''
                                    @ quoted fuzzy_result @ '' (via alias)''))))
           \<and> (\<forall>fuzzy_result.
                 resolve_single_column ratio available_columns user_field
                 \<noteq> Resolved fuzzy_result
                     (Some (''Interpreted '' @ quoted user_field @ '' as '' @ quoted fuzzy_result
                            @ '' (fuzzy match)'')))"
proof -
  let ?P = "\<lambda>col. py_lower col = py_strip (py_lower user_field)"
  from assms have "find ?P available_columns \<noteq> None"
    by (auto simp: find_None_iff)
  then obtain col where f: "find ?P available_columns = Some col" by auto
  then have col: "col \<in> set available_columns" "py_lower col = py_lower c"
    using assms(2) by (auto simp: find_Some_iff)
  have inj: "inj_on py_lower (set available_columns) \<longrightarrow> col = c"
    using col assms(1) by (auto dest: inj_onD)
  have r: "resolve_single_column ratio available_columns user_field =
               (case map_of COLUMN_ALIASES (py_strip (py_lower user_field)) of
                  None \<Rightarrow> Resolved col None
                | Some target \<Rightarrow>
                    if target \<in> set available_columns then Resolved target None
                    else
                      (case fuzzy_match ratio target available_columns of
                         None \<Rightarrow> Resolved col None
                       | Some fuzzy_result \<Rightarrow>
                           Resolved fuzzy_result
                             (Some (''Mapped '' @ quoted user_field @ '' to ''
                                    @ quoted fuzzy_result @ '' (via alias)''))))"
    using f by (simp add: resolve_single_column_def alias_step_def split: option.splits)
  have w: "\<forall>fuzzy_result.
                 resolve_single_column ratio available_columns user_field
                 \<noteq> Resolved fuzzy_result
                     (Some (''Interpreted '' @ quoted user_field @ '' as '' @ quoted fuzzy_result
                            @ '' (fuzzy match)''))"
    unfolding r by (simp split: option.splits)
  show ?thesis
    by (rule exI [of _ col]) (use f col inj r w in simp)
qed

theorem resolve_exact_match_after_alias_witness:
  "''Crawl Timestamp'' \<in> set [''Address'', ''Status Code'', ''Status'', ''Crawl Timestamp'']
   \<and> py_lower ''Crawl Timestamp'' = py_strip (py_lower '' crawl timestamp'')
   \<and> map_of COLUMN_ALIASES (py_strip (py_lower '' crawl timestamp'')) = None
   \<and> resolve_single_column seq_ratio [''Address'', ''Status Code'', ''Status'', ''Crawl Timestamp'']
        '' crawl timestamp'' = Resolved ''Crawl Timestamp'' None"
proof -
  let ?cols = "[''Address'', ''Status Code'', ''Status'', ''Crawl Timestamp'']"
  have h1: "''Crawl Timestamp'' \<in> set ?cols" by simp
  have h2: "py_lower ''Crawl Timestamp'' = py_strip (py_lower '' crawl timestamp'')"
    by (simp add: str_eval)
  have h3: "map_of COLUMN_ALIASES (py_strip (py_lower '' crawl timestamp'')) = None"
    by (simp add: str_eval COLUMN_ALIASES_def)
  have h4: "find (\<lambda>col. py_lower col = py_strip (py_lower '' crawl timestamp'')) ?cols
            = Some ''Crawl Timestamp''"
    by (simp add: str_eval)
  from resolve_exact_match_after_alias [OF h1 h2, of seq_ratio] h3 h4
  have "resolve_single_column seq_ratio ?cols '' crawl timestamp'' = Resolved ''Crawl Timestamp'' None"
    by auto
  with h1 h2 h3 show ?thesis by blast
qed

text \<open>
  The claim as first stated fails in three ways, each at a term that is the name of a
  column.
  \<^item> The term is an alias key whose target is another column: with the columns
    \<^verbatim>\<open>Address\<close>, \<^verbatim>\<open>Status Code\<close> and \<^verbatim>\<open>Status\<close>, the term \<^verbatim>\<open>Status\<close> resolves to
    \<^verbatim>\<open>Status Code\<close>, the target of the alias \<^verbatim>\<open>status\<close>.
  \<^item> The term is an alias key whose target is not a column: with the columns \<^verbatim>\<open>title\<close>
    and \<^verbatim>\<open>Title 2\<close>, the term \<^verbatim>\<open>title\<close> has the alias target \<^verbatim>\<open>Title 1\<close>, whose fuzzy match is
    \<^verbatim>\<open>Title 2\<close> (similarity 6/7, against 5/6 for \<^verbatim>\<open>title\<close>): the resolver returns \<^verbatim>\<open>Title 2\<close>
    with the warning of the alias route.
  \<^item> The term and the column end with a blank: the resolver strips the term and not
    the names of the columns, the exact-match step finds nothing, and the column is
    returned by the fuzzy match of step 3, with its warning.
\<close>

theorem exact_match_preempted_by_alias:
  "''Status'' \<in> set [''Address'', ''Status Code'', ''Status'']
   \<and> resolve_single_column seq_ratio [''Address'', ''Status Code'', ''Status''] ''Status''
       = Resolved ''Status Code'' None
   \<and> ''title'' \<in> set [''title'', ''Title 2'']
   \<and> resolve_single_column seq_ratio [''title'', ''Title 2''] ''title''
       = Resolved ''Title 2''
           (Some (''Mapped '' @ quoted ''title'' @ '' to '' @ quoted ''Title 2'' @ '' (via alias)''))
   \<and> ''Crawl Timestamp '' \<in> set [''Address'', ''Crawl Timestamp '']
   \<and> resolve_single_column seq_ratio [''Address'', ''Crawl Timestamp ''] ''Crawl Timestamp ''
       = Resolved ''Crawl Timestamp ''
           (Some (''Interpreted '' @ quoted ''Crawl Timestamp '' @ '' as ''
                  @ quoted ''Crawl Timestamp '' @ '' (fuzzy match)''))"
  by code_simp

section \<open>Python's dynamic operations on JSON values\<close>

text \<open>Truthiness: \<^verbatim>\<open>None\<close>, \<^verbatim>\<open>False\<close>, zero and the empty string, list and dictionary are false.\<close>

fun py_truthy :: "json \<Rightarrow> bool" where
  "py_truthy JNull = False"
| "py_truthy (JBool b) = b"
| "py_truthy (JNum q) = (q \<noteq> 0)"
| "py_truthy (JStr s) = (s \<noteq> [])"
| "py_truthy (JList xs) = (xs \<noteq> [])"
| "py_truthy (JDict d) = (d \<noteq> [])"

text \<open>
  \<^verbatim>\<open>for x in v\<close>: the elements of a list, the characters of a string, the keys of a
  dictionary; a TypeError on anything else.
\<close>

fun py_iter :: "json \<Rightarrow> py_exception + json list" where
  "py_iter (JList xs) = Inr xs"
| "py_iter (JStr s) = Inr (map (\<lambda>c. JStr [c]) s)"
| "py_iter (JDict d) = Inr (map (\<lambda>kv. JStr (fst kv)) d)"
| "py_iter v = Inl (Raised TypeError (quoted (py_type_name v) @ '' object is not iterable''))"

text \<open>
  \<^verbatim>\<open>x in s\<close> for a set \<open>s\<close> hashes \<open>x\<close> first, which raises for a list or a dictionary;
  \<^verbatim>\<open>x.lower()\<close> raises for everything but a string.
\<close>

definition unhashable :: "string \<Rightarrow> py_exception" where
  "unhashable type_name = Raised TypeError (''unhashable type: '' @ quoted type_name)"

definition no_attribute :: "json \<Rightarrow> string \<Rightarrow> py_exception" where
  "no_attribute v attr =
     Raised AttributeError
       (quoted (py_type_name v) @ '' object has no attribute '' @ quoted attr)"

text \<open>\<^verbatim>\<open>x > n\<close> and \<^verbatim>\<open>x == 0\<close> for an integer \<open>n\<close>; \<^verbatim>\<open>True\<close> and \<^verbatim>\<open>False\<close> count as 1 and 0.\<close>

fun py_gt_int :: "json \<Rightarrow> int \<Rightarrow> py_exception + bool" where
  "py_gt_int (JNum q) n = Inr (q > of_int n)"
| "py_gt_int (JBool b) n = Inr ((if b then 1 else 0) > n)"
| "py_gt_int v n =
     Inl (Raised TypeError
       (quoted ''>'' @ '' not supported between instances of '' @ quoted (py_type_name v)
        @ '' and '' @ quoted ''int''))"

fun py_eq_zero :: "json \<Rightarrow> bool" where
  "py_eq_zero (JNum q) = (q = 0)"
| "py_eq_zero (JBool b) = (\<not> b)"
| "py_eq_zero v = False"

text \<open>\<^verbatim>\<open>a or b\<close> on optional strings: \<open>a\<close> when it is a non-empty string, else \<open>b\<close>.\<close>

definition str_truthy :: "string option \<Rightarrow> bool" where
  "str_truthy a = (a \<noteq> None \<and> a \<noteq> Some [])"

definition py_or_str :: "string option \<Rightarrow> string option \<Rightarrow> string option" where
  "py_or_str a b = (if str_truthy a then a else b)"

section \<open>analytics_agent.py\<close>

definition CORE_METRICS :: "(string \<times> string) list" where
  "CORE_METRICS =
     [(''activeUsers'', ''Users who had an engaged session''),
      (''newUsers'', ''Number of first-time users''),
      (''sessions'', ''Total number of sessions''),
      (''screenPageViews'', ''Total page/screen views''),
      (''bounceRate'', ''Percentage of single-page sessions''),
      (''averageSessionDuration'', ''Average session length in seconds''),
      (''sessionsPerUser'', ''Average sessions per user''),
      (''engagedSessions'', ''Sessions with engagement''),
      (''engagementRate'', ''Percentage of engaged sessions'')]"

definition EXTENDED_METRICS :: "(string \<times> string) list" where
  "EXTENDED_METRICS =
     [(''eventCount'', ''Total number of events''),
      (''conversions'', ''Total conversions''),
      (''totalRevenue'', ''Total revenue from purchases''),
      (''ecommercePurchases'', ''Number of purchases''),
      (''transactions'', ''Total transactions''),
      (''itemRevenue'', ''Revenue from items''),
      (''addToCarts'', ''Add to cart events''),
      (''checkouts'', ''Checkout events''),
      (''itemsViewed'', ''Items viewed''),
      (''itemsPurchased'', ''Items purchased'')]"

definition EXTENDED_TRIGGERS :: "string list" where
  "EXTENDED_TRIGGERS =
     [''revenue'', ''sales'', ''transactions'', ''purchase'', ''ecommerce'',
      ''e-commerce'', ''conversions'', ''convert'', ''events'', ''event count'',
      ''cart'', ''checkout'', ''order'', ''buy'', ''bought'', ''sold'', ''money'',
      ''income'', ''earnings'', ''item'']"

definition CORE_DIMENSIONS :: "(string \<times> string) list" where
  "CORE_DIMENSIONS =
     [(''pagePath'', ''Page URL path''),
      (''pageTitle'', ''Page title''),
      (''deviceCategory'', ''Device type (desktop/mobile/tablet)''),
      (''country'', ''User country''),
      (''city'', ''User city''),
      (''date'', ''Date (YYYYMMDD format)''),
      (''sessionSource'', ''Traffic source''),
      (''sessionMedium'', ''Traffic medium''),
      (''sessionCampaignName'', ''Campaign name''),
      (''browser'', ''Browser name''),
      (''operatingSystem'', ''Operating system''),
      (''language'', ''User language''),
      (''landingPage'', ''First page in session'')]"

definition EXTENDED_DIMENSIONS :: "(string \<times> string) list" where
  "EXTENDED_DIMENSIONS =
     [(''eventName'', ''Event name''),
      (''transactionId'', ''Transaction ID''),
      (''itemName'', ''Product/item name''),
      (''itemCategory'', ''Product category''),
      (''itemBrand'', ''Product brand'')]"

definition DEFAULT_DATE_RANGE :: "string \<times> string" where
  "DEFAULT_DATE_RANGE = (''7daysAgo'', ''today'')"

text \<open>The two fields of the agent that track the extended tier.\<close>

record agent_state =
  extended_enabled :: bool
  extended_reason :: string

definition reset_state :: agent_state where
  "reset_state = \<lparr>extended_enabled = False, extended_reason = []\<rparr>"

text \<open>
  What the agent calls and cannot compute itself: the similarity measure; the order in
  which Python iterates a set of strings (a permutation of its elements, the same one
  for the same set); the language model asked to extract the parameters of a query, which
  returns parsed JSON or raises; the report of the GA4 client; the language model's
  explanation of a report, with the agent's fallback text when the model raises; and
  \<^verbatim>\<open>str\<close> of a value that is not a string.
\<close>

record collaborators =
  similarity :: "string \<Rightarrow> string \<Rightarrow> rat"
  set_order :: "string list \<Rightarrow> string list"
  llm_extract :: "string \<Rightarrow> py_exception + json"
  run_report :: "string \<Rightarrow> string list \<Rightarrow> string list \<Rightarrow> json \<Rightarrow> json \<Rightarrow> json
                 \<Rightarrow> py_exception + py_dict"
  llm_explain :: "string \<Rightarrow> py_dict \<Rightarrow> py_dict \<Rightarrow> py_exception + string"
  py_repr :: "json \<Rightarrow> string"

text \<open>The calls the agent makes to its collaborators, in order.\<close>

datatype call =
    ChatExtract string
  | RunReport string "string list" "string list" json json json
  | ChatExplain string

subsection \<open>Stage 1: the query parser\<close>

definition default_parsed :: py_dict where
  "default_parsed =
     [(''metrics'', JList [JStr ''users'']),
      (''dimensions'', JList []),
      (''start_date'', JStr (fst DEFAULT_DATE_RANGE)),
      (''end_date'', JStr (snd DEFAULT_DATE_RANGE)),
      (''limit'', JNum 10)]"

text \<open>\<^verbatim>\<open>if not result.get(k): result[k] = v\<close>\<close>

definition ensure_field :: "string \<Rightarrow> json \<Rightarrow> py_dict \<Rightarrow> py_dict" where
  "ensure_field k v result =
     (if \<not> py_truthy (dict_get result k JNull) then AList.update k v result else result)"

text \<open>
  \<^verbatim>\<open>_parse_query\<close>, given what the chat call returned or raised. A result that is not a
  dictionary has no \<^verbatim>\<open>get\<close>: the AttributeError is caught like every other exception.
\<close>

fun analytics_parse_query :: "py_exception + json \<Rightarrow> py_dict" where
  "analytics_parse_query (Inr (JDict result)) =
     ensure_field ''limit'' (JNum 10)
       (ensure_field ''end_date'' (JStr (snd DEFAULT_DATE_RANGE))
         (ensure_field ''start_date'' (JStr (fst DEFAULT_DATE_RANGE))
           (ensure_field ''metrics'' (JList [JStr ''users'']) result)))"
| "analytics_parse_query other = default_parsed"

subsection \<open>Stage 2: the validator\<close>

text \<open>
  The loops of \<^verbatim>\<open>_check_extended_triggers\<close> over the parsed fields: the first field that
  is in the extended set, unless hashing a field raises before one is found.
\<close>

fun first_member :: "string list \<Rightarrow> json list \<Rightarrow> py_exception + string option" where
  "first_member names [] = Inr None"
| "first_member names (JStr s # xs) =
     (if s \<in> set names then Inr (Some s) else first_member names xs)"
| "first_member names (JList ys # xs) = Inl (unhashable ''list'')"
| "first_member names (JDict d # xs) = Inl (unhashable ''dict'')"
| "first_member names (v # xs) = first_member names xs"

definition enable :: "agent_state \<Rightarrow> string \<Rightarrow> agent_state" where
  "enable st reason = st\<lparr>extended_enabled := True, extended_reason := reason\<rparr>"

definition check_extended_triggers ::
  "agent_state \<Rightarrow> string \<Rightarrow> json \<Rightarrow> json \<Rightarrow> (py_exception + unit) \<times> agent_state" where
  "check_extended_triggers st query metrics dimensions =
     (case find (\<lambda>trigger. py_in_str trigger (py_lower query)) EXTENDED_TRIGGERS of
        Some trigger \<Rightarrow> (Inr (), enable st (''query mentions '' @ quoted trigger))
      | None \<Rightarrow>
          (case py_iter metrics of
             Inl e \<Rightarrow> (Inl e, st)
           | Inr ms \<Rightarrow>
               (case first_member (map fst EXTENDED_METRICS) ms of
                  Inl e \<Rightarrow> (Inl e, st)
                | Inr (Some metric) \<Rightarrow>
                    (Inr (), enable st (''metric '' @ quoted metric @ '' requires extended tier''))
                | Inr None \<Rightarrow>
                    (case py_iter dimensions of
                       Inl e \<Rightarrow> (Inl e, st)
                     | Inr ds \<Rightarrow>
                         (case first_member (map fst EXTENDED_DIMENSIONS) ds of
                            Inl e \<Rightarrow> (Inl e, st)
                          | Inr (Some dimension) \<Rightarrow>
                              (Inr (), enable st (''dimension '' @ quoted dimension
                                                  @ '' requires extended tier''))
                          | Inr None \<Rightarrow> (Inr (), st))))))"

text \<open>
  \<^verbatim>\<open>_validate_field\<close>. \<open>valid_fields\<close> lists the set in the order Python iterates it. The
  close matches are mapped back to the first field of that lower-case form.
\<close>

definition original_case_step :: "string list \<Rightarrow> string \<Rightarrow> string list \<Rightarrow> string list" where
  "original_case_step all_fields match suggestions =
     (case find (\<lambda>original. py_lower original = match) all_fields of
        None \<Rightarrow> suggestions
      | Some original \<Rightarrow> suggestions @ [original])"

definition did_you_mean ::
  "(string \<Rightarrow> string \<Rightarrow> rat) \<Rightarrow> string \<Rightarrow> string list \<Rightarrow> string list" where
  "did_you_mean ratio field all_fields =
     fold (original_case_step all_fields)
       (get_close_matches ratio (py_lower field) (map py_lower all_fields) 3 (5 / 10)) []"

fun validate_field ::
  "(string \<Rightarrow> string \<Rightarrow> rat) \<Rightarrow> json \<Rightarrow> string list \<Rightarrow> string \<Rightarrow> py_exception + string" where
  "validate_field ratio (JStr field) valid_fields field_type =
     (if field \<in> set valid_fields then Inr field
      else
        (let suggestions = did_you_mean ratio field valid_fields
         in if suggestions \<noteq> []
            then Inl (Raised ValidationError
                   (field_type @ '' '' @ quoted field @ '' is not valid. ''
                    @ ''Did you mean: '' @ py_join '', '' (map quoted suggestions) @ ''? ''
                    @ ''Please use exact GA4 field names.''))
            else Inl (Raised ValidationError
                   (field_type @ '' '' @ quoted field @ '' is not recognized. ''
                    @ ''Valid '' @ py_lower field_type @ ''s include: ''
                    @ py_join '', '' (map quoted (take 5 valid_fields)) @ '', and more. ''
                    @ ''Please check GA4 documentation for exact field names.''))))"
| "validate_field ratio (JList xs) valid_fields field_type = Inl (unhashable ''list'')"
| "validate_field ratio (JDict d) valid_fields field_type = Inl (unhashable ''dict'')"
| "validate_field ratio v valid_fields field_type = Inl (no_attribute v ''lower'')"

fun validate_all ::
  "(string \<Rightarrow> string \<Rightarrow> rat) \<Rightarrow> json list \<Rightarrow> string list \<Rightarrow> string \<Rightarrow> py_exception + string list" where
  "validate_all ratio [] valid_fields field_type = Inr []"
| "validate_all ratio (field # others) valid_fields field_type =
     (case validate_field ratio field valid_fields field_type of
        Inl e \<Rightarrow> Inl e
      | Inr validated \<Rightarrow>
          (case validate_all ratio others valid_fields field_type of
             Inl e \<Rightarrow> Inl e
           | Inr rest \<Rightarrow> Inr (validated # rest)))"

definition valid_metrics_of :: "collaborators \<Rightarrow> agent_state \<Rightarrow> string list" where
  "valid_metrics_of env st =
     set_order env (map fst CORE_METRICS
                    @ (if extended_enabled st then map fst EXTENDED_METRICS else []))"

definition valid_dimensions_of :: "collaborators \<Rightarrow> agent_state \<Rightarrow> string list" where
  "valid_dimensions_of env st =
     set_order env (map fst CORE_DIMENSIONS
                    @ (if extended_enabled st then map fst EXTENDED_DIMENSIONS else []))"

definition resolve_and_validate ::
  "collaborators \<Rightarrow> agent_state \<Rightarrow> string \<Rightarrow> json \<Rightarrow> json
   \<Rightarrow> (py_exception + string list \<times> string list) \<times> agent_state" where
  "resolve_and_validate env st query parsed_metrics parsed_dimensions =
     (case check_extended_triggers st query parsed_metrics parsed_dimensions of
        (Inl e, st') \<Rightarrow> (Inl e, st')
      | (Inr u, st') \<Rightarrow>
          (case py_iter parsed_metrics of
             Inl e \<Rightarrow> (Inl e, st')
           | Inr ms \<Rightarrow>
               (case validate_all (similarity env) ms (valid_metrics_of env st') ''Metric'' of
                  Inl e \<Rightarrow> (Inl e, st')
                | Inr validated_metrics \<Rightarrow>
                    (case py_iter parsed_dimensions of
                       Inl e \<Rightarrow> (Inl e, st')
                     | Inr ds \<Rightarrow>
                         (case validate_all (similarity env) ds (valid_dimensions_of env st')
                                 ''Dimension'' of
                            Inl e \<Rightarrow> (Inl e, st')
                          | Inr validated_dimensions \<Rightarrow>
                              (Inr (validated_metrics, validated_dimensions), st'))))))"

subsection \<open>Stage 4: the response synthesizer\<close>

text \<open>\<^verbatim>\<open>str(v)\<close> as an f-string prints it.\<close>

fun py_str :: "collaborators \<Rightarrow> json \<Rightarrow> string" where
  "py_str env (JStr s) = s"
| "py_str env JNull = ''None''"
| "py_str env (JBool b) = (if b then ''True'' else ''False'')"
| "py_str env v = py_repr env v"

definition no_data_text :: "collaborators \<Rightarrow> py_dict \<Rightarrow> string" where
  "no_data_text env parsed =
     ''No data found for the specified query. This could mean:'' @ [CHR 0x0A]
     @ ''- No traffic during the date range (''
     @ py_str env (dict_get parsed ''start_date'' JNull) @ '' to ''
     @ py_str env (dict_get parsed ''end_date'' JNull) @ '')'' @ [CHR 0x0A]
     @ ''- The requested dimensions/metrics have no recorded values'' @ [CHR 0x0A]
     @ ''- The property ID may not have the expected data''"

text \<open>
  \<^verbatim>\<open>_generate_nl_response\<close>: a report with no rows gets the fixed text and the language
  model is not called; otherwise the explanation is the collaborator's.
\<close>

definition generate_nl_response ::
  "collaborators \<Rightarrow> string \<Rightarrow> py_dict \<Rightarrow> py_dict \<Rightarrow> (py_exception + string) \<times> call list" where
  "generate_nl_response env query dat parsed =
     (if py_eq_zero (dict_get dat ''row_count'' (JNum 0)) then (Inr (no_data_text env parsed), [])
      else (llm_explain env query dat parsed, [ChatExplain query]))"

definition analytics_synthesize_response ::
  "collaborators \<Rightarrow> agent_state \<Rightarrow> string \<Rightarrow> py_dict \<Rightarrow> bool \<Rightarrow> py_dict
   \<Rightarrow> (py_exception + agent_response) \<times> call list" where
  "analytics_synthesize_response env st query dat json_requested parsed =
     (let row_count = dict_get dat ''row_count'' (JNum 0);
          acknowledgment =
            (if extended_enabled st
             then ''(Note: Including extended metrics to answer your '' @ extended_reason st @ ''.) ''
             else [])
      in if json_requested
         then (Inr \<lparr>answer = acknowledgment @ ''Results returned in JSON format.'',
                    data = Some dat, agent_used = ''analytics''\<rparr>, [])
         else
           (case generate_nl_response env query dat parsed of
              (Inl e, calls) \<Rightarrow> (Inl e, calls)
            | (Inr nl_response, calls) \<Rightarrow>
                (case py_gt_int row_count 10 of
                   Inl e \<Rightarrow> (Inl e, calls)
                 | Inr many \<Rightarrow>
                     if many
                     then (Inr \<lparr>answer = acknowledgment @ nl_response, data = Some dat,
                                agent_used = ''analytics''\<rparr>, calls)
                     else (Inr \<lparr>answer = acknowledgment @ nl_response, data = None,
                                agent_used = ''analytics''\<rparr>, calls))))"

subsection \<open>The pipeline\<close>

definition property_id_required :: string where
  "property_id_required =
     ''GA4 Property ID is required. Please provide '' @ quoted ''propertyId''
     @ '' in your request (e.g., '' @ quoted ''123456789''
     @ ''). You can find this in Google Analytics under Admin > Property Settings.''"

text \<open>
  The body of the \<^verbatim>\<open>try\<close> block of \<^verbatim>\<open>process\<close>: the response or the exception that leaves
  the block, the agent's fields afterwards, and the calls made to the collaborators.
\<close>

definition analytics_pipeline ::
  "collaborators \<Rightarrow> string option \<Rightarrow> string \<Rightarrow> string option \<Rightarrow> bool
   \<Rightarrow> (py_exception + agent_response) \<times> agent_state \<times> call list" where
  "analytics_pipeline env default_property_id query property_id json_requested =
     (let resolved_property_id = py_or_str property_id default_property_id
      in if \<not> str_truthy resolved_property_id
         then (Inl (Raised GA4PropertyError property_id_required), reset_state, [])
         else
           (let parsed = analytics_parse_query (llm_extract env query);
                calls1 = [ChatExtract query]
            in case resolve_and_validate env reset_state query
                      (dict_get parsed ''metrics'' (JList []))
                      (dict_get parsed ''dimensions'' (JList [])) of
                 (Inl e, st) \<Rightarrow> (Inl e, st, calls1)
               | (Inr (metrics, dimensions), st) \<Rightarrow>
                   (let start_date = dict_get parsed ''start_date'' (JStr (fst DEFAULT_DATE_RANGE));
                        end_date = dict_get parsed ''end_date'' (JStr (snd DEFAULT_DATE_RANGE));
                        limit = dict_get parsed ''limit'' (JNum 100);
                        calls2 = calls1 @ [RunReport (the resolved_property_id) metrics dimensions
                                             start_date end_date limit]
                    in case run_report env (the resolved_property_id) metrics dimensions
                              start_date end_date limit of
                         Inl e \<Rightarrow> (Inl e, st, calls2)
                       | Inr dat \<Rightarrow>
                           (case analytics_synthesize_response env st query dat json_requested
                                   parsed of
                              (r, calls3) \<Rightarrow> (r, st, calls2 @ calls3)))))"

text \<open>The \<^verbatim>\<open>except\<close> clauses of \<^verbatim>\<open>process\<close>.\<close>

definition analytics_error_response :: "py_exception \<Rightarrow> agent_response" where
  "analytics_error_response e =
     \<lparr>answer =
        (case exn_class_of e of
           GA4PropertyError \<Rightarrow> str_of_exn e
         | ValidationError \<Rightarrow> str_of_exn e
         | GA4APIError \<Rightarrow> ''Error querying Google Analytics: '' @ str_of_exn e
         | _ \<Rightarrow> ''An error occurred processing your analytics query: '' @ str_of_exn e),
      data = None,
      agent_used = ''analytics''\<rparr>"

definition analytics_process ::
  "collaborators \<Rightarrow> string option \<Rightarrow> string \<Rightarrow> string option \<Rightarrow> bool
   \<Rightarrow> agent_response \<times> agent_state \<times> call list" where
  "analytics_process env default_property_id query property_id json_requested =
     (case analytics_pipeline env default_property_id query property_id json_requested of
        (Inr response, st, calls) \<Rightarrow> (response, st, calls)
      | (Inl e, st, calls) \<Rightarrow> (analytics_error_response e, st, calls))"

text \<open>Whether the report of the GA4 client was asked for.\<close>

fun is_run_report :: "call \<Rightarrow> bool" where
  "is_run_report (RunReport p ms ds s e l) = True"
| "is_run_report c = False"

section \<open>Properties of the analytics pipeline\<close>

text \<open>A field counts as omitted when its value is absent or false in Python's sense.\<close>

definition omitted :: "py_dict \<Rightarrow> string \<Rightarrow> bool" where
  "omitted result k = (\<not> py_truthy (dict_get result k JNull))"

text \<open>Collaborators for concrete runs: the language model is down, the report is empty.\<close>

definition sample_collaborators :: collaborators where
  "sample_collaborators =
     \<lparr>similarity = seq_ratio,
      set_order = (\<lambda>xs. xs),
      llm_extract = (\<lambda>query. Inl (Raised OtherException ''Max retries exceeded'')),
      run_report = (\<lambda>property_id metrics dimensions start_date end_date limit.
                      Inr [(''rows'', JList []), (''row_count'', JNum 0)]),
      llm_explain = (\<lambda>query dat parsed. Inr ''Sessions were stable over the last week.''),
      py_repr = (\<lambda>v. ''?'')\<rparr>"

lemma map_of_ensure_field:
  "map_of (ensure_field k v result) k' =
     (if k' = k \<and> \<not> py_truthy (dict_get result k JNull) then Some v else map_of result k')"
  by (simp add: ensure_field_def update_conv')

lemma dict_get_ensure_field:
  "dict_get (ensure_field k v result) k' dflt =
     (if k' = k \<and> \<not> py_truthy (dict_get result k JNull) then v else dict_get result k' dflt)"
  by (simp add: dict_get_def map_of_ensure_field)

text \<open>
  C8. When the extraction call raises, \<^verbatim>\<open>_parse_query\<close> returns the complete default
  query: the single metric \<^verbatim>\<open>users\<close>, no dimensions, the range \<^verbatim>\<open>7daysAgo\<close> to \<^verbatim>\<open>today\<close>,
  limit 10. It returns a dictionary whatever the call did, so nothing is propagated.
  When the call returns a dictionary, each of the metric list, the start date, the end
  date and the limit that is omitted gets the same default, a field that is present keeps
  its value, and every other key is left as the model gave it.
\<close>

theorem parse_query_defaults:
  "analytics_parse_query (Inl e) =
     [(''metrics'', JList [JStr ''users'']), (''dimensions'', JList []),
      (''start_date'', JStr ''7daysAgo''), (''end_date'', JStr ''today''), (''limit'', JNum 10)]
   \<and> map_of (analytics_parse_query (Inr (JDict result))) ''metrics'' =
       (if omitted result ''metrics'' then Some (JList [JStr ''users''])
        else map_of result ''metrics'')
   \<and> map_of (analytics_parse_query (Inr (JDict result))) ''start_date'' =
       (if omitted result ''start_date'' then Some (JStr ''7daysAgo'')
        else map_of result ''start_date'')
   \<and> map_of (analytics_parse_query (Inr (JDict result))) ''end_date'' =
       (if omitted result ''end_date'' then Some (JStr ''today'')
        else map_of result ''end_date'')
   \<and> map_of (analytics_parse_query (Inr (JDict result))) ''limit'' =
       (if omitted result ''limit'' then Some (JNum 10) else map_of result ''limit'')
   \<and> (k \<notin> {''metrics'', ''start_date'', ''end_date'', ''limit''} \<longrightarrow>
        map_of (analytics_parse_query (Inr (JDict result))) k = map_of result k)"
proof (intro conjI)
  show "analytics_parse_query (Inl e) =
     [(''metrics'', JList [JStr ''users'']), (''dimensions'', JList []),
      (''start_date'', JStr ''7daysAgo''), (''end_date'', JStr ''today''), (''limit'', JNum 10)]"
    by (simp add: default_parsed_def DEFAULT_DATE_RANGE_def)
  show "map_of (analytics_parse_query (Inr (JDict result))) ''metrics'' =
       (if omitted result ''metrics'' then Some (JList [JStr ''users''])
        else map_of result ''metrics'')"
    by (simp add: map_of_ensure_field omitted_def)
  show "map_of (analytics_parse_query (Inr (JDict result))) ''start_date'' =
       (if omitted result ''start_date'' then Some (JStr ''7daysAgo'')
        else map_of result ''start_date'')"
    by (simp add: map_of_ensure_field dict_get_ensure_field omitted_def DEFAULT_DATE_RANGE_def)
  show "map_of (analytics_parse_query (Inr (JDict result))) ''end_date'' =
       (if omitted result ''end_date'' then Some (JStr ''today'')
        else map_of result ''end_date'')"
    by (simp add: map_of_ensure_field dict_get_ensure_field omitted_def DEFAULT_DATE_RANGE_def)
  show "map_of (analytics_parse_query (Inr (JDict result))) ''limit'' =
       (if omitted result ''limit'' then Some (JNum 10) else map_of result ''limit'')"
    by (simp add: map_of_ensure_field dict_get_ensure_field omitted_def)
  show "k \<notin> {''metrics'', ''start_date'', ''end_date'', ''limit''} \<longrightarrow>
        map_of (analytics_parse_query (Inr (JDict result))) k = map_of result k"
    by (simp add: map_of_ensure_field)
qed

theorem parse_query_defaults_witness:
  "omitted [(''dimensions'', JList [JStr ''country'']), (''start_date'', JStr ''30daysAgo''),
            (''limit'', JNum 0)] ''metrics''
   \<and> ''dimensions'' \<notin> {''metrics'', ''start_date'', ''end_date'', ''limit''}
   \<and> map_of (analytics_parse_query (Inr (JDict [(''dimensions'', JList [JStr ''country'']),
                                       (''start_date'', JStr ''30daysAgo''),
                                       (''limit'', JNum 0)]))) ''metrics''
     = Some (JList [JStr ''users''])
   \<and> map_of (analytics_parse_query (Inr (JDict [(''dimensions'', JList [JStr ''country'']),
                                       (''start_date'', JStr ''30daysAgo''),
                                       (''limit'', JNum 0)]))) ''dimensions''
     = Some (JList [JStr ''country''])"
proof -
  let ?result = "[(''dimensions'', JList [JStr ''country'']), (''start_date'', JStr ''30daysAgo''),
                  (''limit'', JNum 0)]"
  have om: "omitted ?result ''metrics''"
    by (simp add: omitted_def dict_get_def)
  have k: "''dimensions'' \<notin> {''metrics'', ''start_date'', ''end_date'', ''limit''}"
    by simp
  note facts = parse_query_defaults [of "Raised OtherException []" ?result "''dimensions''"]
  have m: "map_of (analytics_parse_query (Inr (JDict ?result))) ''metrics''
      = Some (JList [JStr ''users''])"
    using facts om by presburger
  have d: "map_of (analytics_parse_query (Inr (JDict ?result))) ''dimensions''
      = Some (JList [JStr ''country''])"
    using facts k by simp
  from om k m d show ?thesis by (intro conjI)
qed

text \<open>
  C5. With no property id from the caller and no default one, \<^verbatim>\<open>process\<close> returns the
  guidance response, with no data and \<^verbatim>\<open>analytics\<close> as the agent; the agent's fields stay
  reset and no collaborator is called: not the language model, and not \<^verbatim>\<open>run_report\<close>.
\<close>

theorem missing_property_id_guidance:
  assumes "\<not> str_truthy property_id" and "\<not> str_truthy default_property_id"
  shows "analytics_process env default_property_id query property_id json_requested =
           (\<lparr>answer = property_id_required, data = None, agent_used = ''analytics''\<rparr>,
            reset_state, [])
         \<and> filter is_run_report
              (snd (snd (analytics_process env default_property_id query property_id
                           json_requested))) = []"
  using assms
  by (simp add: analytics_process_def analytics_pipeline_def py_or_str_def
      analytics_error_response_def)

theorem missing_property_id_guidance_witness:
  "\<not> str_truthy (Some []) \<and> \<not> str_truthy None
   \<and> analytics_process sample_collaborators None ''sessions by country'' (Some []) False =
       (\<lparr>answer = property_id_required, data = None, agent_used = ''analytics''\<rparr>,
        reset_state, [])"
proof -
  have h1: "\<not> str_truthy (Some [])" by (simp add: str_truthy_def)
  have h2: "\<not> str_truthy None" by (simp add: str_truthy_def)
  from missing_property_id_guidance [OF h1 h2, of sample_collaborators "''sessions by country''" False]
  have "analytics_process sample_collaborators None ''sessions by country'' (Some []) False =
       (\<lparr>answer = property_id_required, data = None, agent_used = ''analytics''\<rparr>,
        reset_state, [])"
    by (rule conjunct1)
  with h1 h2 show ?thesis by (intro conjI)
qed

subsection \<open>The extended tier\<close>

text \<open>
  The condition of the specification: the lower-cased query contains a trigger keyword,
  or a parsed metric is an extended metric, or a parsed dimension is an extended
  dimension.
\<close>

definition tier_condition :: "string \<Rightarrow> string list \<Rightarrow> string list \<Rightarrow> bool" where
  "tier_condition query metrics dimensions =
     ((\<exists>trigger \<in> set EXTENDED_TRIGGERS. py_in_str trigger (py_lower query))
      \<or> (\<exists>metric \<in> set metrics. metric \<in> set (map fst EXTENDED_METRICS))
      \<or> (\<exists>dimension \<in> set dimensions. dimension \<in> set (map fst EXTENDED_DIMENSIONS)))"

text \<open>Collaborators whose language model extracts a revenue query.\<close>

definition revenue_collaborators :: collaborators where
  "revenue_collaborators =
     sample_collaborators
       \<lparr>llm_extract := (\<lambda>query. Inr (JDict [(''metrics'', JList [JStr ''totalRevenue'']),
                                             (''dimensions'', JList [JStr ''country''])]))\<rparr>"

lemma first_member_strs:
  "first_member names (map JStr xs) = Inr (find (\<lambda>x. x \<in> set names) xs)"
  by (induction xs) simp_all

lemma check_extended_triggers_monotone:
  "extended_enabled st \<Longrightarrow>
   extended_enabled (snd (check_extended_triggers st query metrics dimensions))"
  by (simp add: check_extended_triggers_def enable_def
      split: option.splits sum.splits)

lemma find_Some_mem: "find P xs = Some x \<Longrightarrow> x \<in> set xs \<and> P x"
  by (induction xs) (auto split: if_splits)

lemma find_exists: "(find P xs \<noteq> None) = (\<exists>x \<in> set xs. P x)"
  by (auto simp: find_None_iff)

lemma check_extended_triggers_iff:
  assumes m: "py_iter metrics_json = Inr (map JStr metrics)"
      and d: "py_iter dimensions_json = Inr (map JStr dimensions)"
      and off: "\<not> extended_enabled st"
  shows "extended_enabled (snd (check_extended_triggers st query metrics_json dimensions_json))
         \<longleftrightarrow> tier_condition query metrics dimensions"
proof -
  let ?T = "find (\<lambda>trigger. py_in_str trigger (py_lower query)) EXTENDED_TRIGGERS"
  let ?M = "find (\<lambda>x. x \<in> set (map fst EXTENDED_METRICS)) metrics"
  let ?D = "find (\<lambda>x. x \<in> set (map fst EXTENDED_DIMENSIONS)) dimensions"
  have en: "extended_enabled (snd (check_extended_triggers st query metrics_json dimensions_json))
        \<longleftrightarrow> ?T \<noteq> None \<or> ?M \<noteq> None \<or> ?D \<noteq> None"
    using off
    by (cases ?T; cases ?M; cases ?D)
      (simp_all add: check_extended_triggers_def enable_def m d first_member_strs)
  show ?thesis
    unfolding en tier_condition_def find_exists ..
qed

lemma check_extended_triggers_reason:
  assumes "extended_enabled (snd (check_extended_triggers st query metrics dimensions))"
      and "\<not> extended_enabled st"
  shows "extended_reason (snd (check_extended_triggers st query metrics dimensions)) \<noteq> []"
  using assms
  by (auto simp: check_extended_triggers_def enable_def split: option.splits sum.splits)

lemma resolve_and_validate_state:
  "snd (resolve_and_validate env st query metrics dimensions)
   = snd (check_extended_triggers st query metrics dimensions)"
  by (simp add: resolve_and_validate_def split: prod.splits sum.splits)

lemma analytics_process_state:
  assumes "str_truthy (py_or_str property_id default_property_id)"
  shows "fst (snd (analytics_process env default_property_id query property_id json_requested))
         = snd (check_extended_triggers reset_state query
                  (dict_get (analytics_parse_query (llm_extract env query)) ''metrics'' (JList []))
                  (dict_get (analytics_parse_query (llm_extract env query)) ''dimensions'' (JList [])))"
proof -
  let ?parsed = "analytics_parse_query (llm_extract env query)"
  let ?rv = "resolve_and_validate env reset_state query
               (dict_get ?parsed ''metrics'' (JList [])) (dict_get ?parsed ''dimensions'' (JList []))"
  have "fst (snd (analytics_pipeline env default_property_id query property_id json_requested))
        = snd ?rv"
    using assms
    by (simp add: analytics_pipeline_def Let_def split: prod.splits sum.splits)
  moreover have "fst (snd (analytics_process env default_property_id query property_id json_requested))
        = fst (snd (analytics_pipeline env default_property_id query property_id json_requested))"
    by (simp add: analytics_process_def split: prod.splits sum.splits)
  ultimately show ?thesis by (simp add: resolve_and_validate_state)
qed

text \<open>
  C4. Take a request that has a property id, whose parsed metrics and dimensions are
  lists of names. When \<^verbatim>\<open>process\<close> returns, the extended tier is enabled if and only if
  the lower-cased query contains a trigger keyword or a parsed metric or dimension
  belongs to the extended sets. The agent's fields at the end are the ones the trigger
  check left: validation, execution and synthesis do not write them. An enabled tier has
  a reason recorded, and the trigger check itself never turns an enabled tier off.
\<close>

theorem extended_tier_activation:
  assumes "str_truthy (py_or_str property_id default_property_id)"
      and "py_iter (dict_get (analytics_parse_query (llm_extract env query)) ''metrics'' (JList []))
           = Inr (map JStr metrics)"
      and "py_iter (dict_get (analytics_parse_query (llm_extract env query)) ''dimensions'' (JList []))
           = Inr (map JStr dimensions)"
  shows "(extended_enabled
            (fst (snd (analytics_process env default_property_id query property_id json_requested)))
          \<longleftrightarrow> tier_condition query metrics dimensions)
       \<and> fst (snd (analytics_process env default_property_id query property_id json_requested))
          = snd (check_extended_triggers reset_state query
                  (dict_get (analytics_parse_query (llm_extract env query)) ''metrics'' (JList []))
                  (dict_get (analytics_parse_query (llm_extract env query)) ''dimensions'' (JList [])))
       \<and> (extended_enabled
            (fst (snd (analytics_process env default_property_id query property_id json_requested)))
          \<longrightarrow> extended_reason
            (fst (snd (analytics_process env default_property_id query property_id json_requested)))
              \<noteq> [])
       \<and> (extended_enabled st \<longrightarrow>
            extended_enabled (snd (check_extended_triggers st query' metrics' dimensions')))"
proof -
  have off: "\<not> extended_enabled reset_state"
    by (simp add: reset_state_def)
  note final = analytics_process_state [OF assms(1), of env query json_requested]
  show ?thesis
    unfolding final
    using check_extended_triggers_iff [OF assms(2) assms(3) off, of query]
      check_extended_triggers_reason [OF _ off]
      check_extended_triggers_monotone [of st query' metrics' dimensions']
    by blast
qed

theorem extended_tier_activation_witness:
  "str_truthy (py_or_str (Some ''123456789'') None)
   \<and> tier_condition ''Revenue by country'' [''totalRevenue''] [''country'']
   \<and> extended_enabled
        (fst (snd (analytics_process revenue_collaborators None ''Revenue by country''
                     (Some ''123456789'') False)))"
proof -
  have h1: "str_truthy (py_or_str (Some ''123456789'') None)"
    by (simp add: str_truthy_def py_or_str_def)
  have h2: "py_iter (dict_get (analytics_parse_query
              (llm_extract revenue_collaborators ''Revenue by country'')) ''metrics'' (JList []))
           = Inr (map JStr [''totalRevenue''])"
    by (simp add: revenue_collaborators_def sample_collaborators_def dict_get_def ensure_field_def)
  have h3: "py_iter (dict_get (analytics_parse_query
              (llm_extract revenue_collaborators ''Revenue by country'')) ''dimensions'' (JList []))
           = Inr (map JStr [''country''])"
    by (simp add: revenue_collaborators_def sample_collaborators_def dict_get_def ensure_field_def)
  have c: "tier_condition ''Revenue by country'' [''totalRevenue''] [''country'']"
    by (simp add: tier_condition_def EXTENDED_TRIGGERS_def str_eval)
  from extended_tier_activation [OF h1 h2 h3, where json_requested = False] c
  have "extended_enabled
        (fst (snd (analytics_process revenue_collaborators None ''Revenue by country''
                     (Some ''123456789'') False)))"
    by blast
  with h1 c show ?thesis by (intro conjI)
qed

section \<open>Failed resolutions and their suggestions\<close>

lemma fold_fuzzy_step:
  "snd (fold (fuzzy_step ratio w) cs best) = fold max (map (\<lambda>c. ratio w (py_lower c)) cs) (snd best)
   \<and> (fst (fold (fuzzy_step ratio w) cs best) = None \<longrightarrow>
        fst best = None \<and> snd (fold (fuzzy_step ratio w) cs best) = snd best)"
proof (induction cs arbitrary: best)
  case Nil
  then show ?case by simp
next
  case (Cons c cs)
  show ?case
    using Cons.IH [of "fuzzy_step ratio w c best"]
    by (auto simp: fuzzy_step_def Let_def max_def)
qed

lemma fold_max_less:
  "fold max xs (r::rat) < t \<longleftrightarrow> r < t \<and> (\<forall>x \<in> set xs. x < t)"
  by (induction xs arbitrary: r) auto

lemma fuzzy_match_None_iff:
  "fuzzy_match ratio term candidates = None
   \<longleftrightarrow> (\<forall>c \<in> set candidates. ratio (py_lower term) (py_lower c) < FUZZY_THRESHOLD)"
proof (cases "candidates = []")
  case True
  then show ?thesis by (simp add: fuzzy_match_def)
next
  case False
  let ?best = "fold (fuzzy_step ratio (py_lower term)) candidates (None, 0)"
  have s: "snd ?best = fold max (map (\<lambda>c. ratio (py_lower term) (py_lower c)) candidates) 0"
    and n: "fst ?best = None \<longrightarrow> snd ?best = 0"
    using fold_fuzzy_step [of ratio "py_lower term" candidates "(None, 0)"] by auto
  have "fuzzy_match ratio term candidates = None \<longleftrightarrow> snd ?best < FUZZY_THRESHOLD"
    using False n by (auto simp: fuzzy_match_def Let_def FUZZY_THRESHOLD_def)
  also have "\<dots> \<longleftrightarrow> (\<forall>c \<in> set candidates. ratio (py_lower term) (py_lower c) < FUZZY_THRESHOLD)"
    unfolding s fold_max_less by (auto simp: FUZZY_THRESHOLD_def)
  finally show ?thesis .
qed

lemma original_case_step_cases:
  "original_case_step all_fields m acc = acc
   \<or> (\<exists>c \<in> set all_fields. py_lower c = m \<and> original_case_step all_fields m acc = acc @ [c])"
  by (auto simp: original_case_step_def dest: find_Some_mem split: option.splits)

lemma did_you_mean_props:
  "length (did_you_mean ratio field valid_fields) \<le> 3
   \<and> (\<forall>s \<in> set (did_you_mean ratio field valid_fields).
         s \<in> set valid_fields \<and> ratio (py_lower s) (py_lower field) \<ge> 5 / 10)
   \<and> sorted_wrt (\<lambda>s s'. ratio (py_lower s) (py_lower field) \<ge> ratio (py_lower s') (py_lower field))
        (did_you_mean ratio field valid_fields)"
  unfolding did_you_mean_def
  by (rule mapped_back_props [of "original_case_step valid_fields" valid_fields])
     (rule original_case_step_cases)

lemma validate_field_message:
  assumes "field \<notin> set valid_fields"
  shows "validate_field ratio (JStr field) valid_fields field_type
       = Inl (Raised ValidationError
           (if did_you_mean ratio field valid_fields \<noteq> []
            then field_type @ '' '' @ quoted field @ '' is not valid. ''
                 @ ''Did you mean: ''
                 @ py_join '', '' (map quoted (did_you_mean ratio field valid_fields)) @ ''? ''
                 @ ''Please use exact GA4 field names.''
            else field_type @ '' '' @ quoted field @ '' is not recognized. ''
                 @ ''Valid '' @ py_lower field_type @ ''s include: ''
                 @ py_join '', '' (map quoted (take 5 valid_fields)) @ '', and more. ''
                 @ ''Please check GA4 documentation for exact field names.''))"
  using assms by (simp add: Let_def)

lemma resolve_failure:
  assumes "alias_step ratio cols t = None"
      and "\<forall>c \<in> set cols. py_lower c \<noteq> py_strip (py_lower t)"
      and "\<forall>c \<in> set cols. ratio (py_lower t) (py_lower c) < FUZZY_THRESHOLD"
  shows "resolve_single_column ratio cols t
         = ResolutionError (unknown_field_message t (get_suggestions ratio t cols 3) cols)"
proof -
  have "find (\<lambda>col. py_lower col = py_strip (py_lower t)) cols = None"
    using assms(2) by (auto simp: find_None_iff)
  moreover have "fuzzy_match ratio t cols = None"
    using assms(3) by (simp add: fuzzy_match_None_iff)
  ultimately show ?thesis
    using assms(1) by (simp add: resolve_single_column_def)
qed

lemma saless_suggestions:
  "get_suggestions seq_ratio ''saless'' [''Address'', ''Status Code'', ''Status'', ''Crawl Timestamp''] 3
   = [''Address'', ''Status'']"
  by code_simp

lemma saless_no_fuzzy:
  "\<forall>c \<in> set [''Address'', ''Status Code'', ''Status'', ''Crawl Timestamp''].
     seq_ratio (py_lower ''saless'') (py_lower c) < FUZZY_THRESHOLD"
  by code_simp

lemma sesions_suggestions:
  "did_you_mean seq_ratio ''sesions'' (map fst CORE_METRICS)
   = [''sessions'', ''sessionsPerUser'', ''engagedSessions'']"
  by code_simp

text \<open>
  C2 (as amended). In the SEO resolver, a term with no alias match, no exact match and a
  similarity below 0.8 to every column fails, and the error message is built from the
  suggestion list: at most 3 columns, each with similarity at least 0.4 to the term, in
  descending order of similarity. In the analytics validator, a field that is not in the
  allowlist raises a ValidationError whose message lists the suggestions, when there are
  some, and the first five fields of the allowlist otherwise; the suggestions are at most
  3 fields of the allowlist, in descending order of similarity, each with similarity at
  least 0.5: the validator's cutoff is 0.5, not 0.4. Similarity is that of the lower-cased
  candidate to the lower-cased term.
\<close>

theorem resolution_failure_suggestions:
  assumes "alias_step ratio cols t = None"
      and "\<forall>c \<in> set cols. py_lower c \<noteq> py_strip (py_lower t)"
      and "\<forall>c \<in> set cols. ratio (py_lower t) (py_lower c) < FUZZY_THRESHOLD"
      and "field \<notin> set valid_fields"
  shows "resolve_single_column ratio cols t
           = ResolutionError (unknown_field_message t (get_suggestions ratio t cols 3) cols)
       \<and> length (get_suggestions ratio t cols 3) \<le> 3
       \<and> (\<forall>s \<in> set (get_suggestions ratio t cols 3).
             s \<in> set cols \<and> ratio (py_lower s) (py_lower t) \<ge> 4 / 10)
       \<and> sorted_wrt (\<lambda>s s'. ratio (py_lower s) (py_lower t) \<ge> ratio (py_lower s') (py_lower t))
            (get_suggestions ratio t cols 3)
       \<and> validate_field ratio (JStr field) valid_fields field_type
           = Inl (Raised ValidationError
               (if did_you_mean ratio field valid_fields \<noteq> []
                then field_type @ '' '' @ quoted field @ '' is not valid. ''
                     @ ''Did you mean: ''
                     @ py_join '', '' (map quoted (did_you_mean ratio field valid_fields)) @ ''? ''
                     @ ''Please use exact GA4 field names.''
                else field_type @ '' '' @ quoted field @ '' is not recognized. ''
                     @ ''Valid '' @ py_lower field_type @ ''s include: ''
                     @ py_join '', '' (map quoted (take 5 valid_fields)) @ '', and more. ''
                     @ ''Please check GA4 documentation for exact field names.''))
       \<and> length (did_you_mean ratio field valid_fields) \<le> 3
       \<and> (\<forall>s \<in> set (did_you_mean ratio field valid_fields).
             s \<in> set valid_fields \<and> ratio (py_lower s) (py_lower field) \<ge> 5 / 10)
       \<and> sorted_wrt (\<lambda>s s'. ratio (py_lower s) (py_lower field) \<ge> ratio (py_lower s') (py_lower field))
            (did_you_mean ratio field valid_fields)"
proof -
  note sg = get_suggestions_props [of ratio t cols 3]
  note dm = did_you_mean_props [of ratio field valid_fields]
  show ?thesis
  proof (intro conjI)
    show "resolve_single_column ratio cols t
           = ResolutionError (unknown_field_message t (get_suggestions ratio t cols 3) cols)"
      by (rule resolve_failure [OF assms(1) assms(2) assms(3)])
    show "length (get_suggestions ratio t cols 3) \<le> 3"
      by (rule sg [THEN conjunct1])
    show "\<forall>s \<in> set (get_suggestions ratio t cols 3).
             s \<in> set cols \<and> ratio (py_lower s) (py_lower t) \<ge> 4 / 10"
      by (rule sg [THEN conjunct2, THEN conjunct1])
    show "sorted_wrt (\<lambda>s s'. ratio (py_lower s) (py_lower t) \<ge> ratio (py_lower s') (py_lower t))
            (get_suggestions ratio t cols 3)"
      by (rule sg [THEN conjunct2, THEN conjunct2])
    show "validate_field ratio (JStr field) valid_fields field_type
           = Inl (Raised ValidationError
               (if did_you_mean ratio field valid_fields \<noteq> []
                then field_type @ '' '' @ quoted field @ '' is not valid. ''
                     @ ''Did you mean: ''
                     @ py_join '', '' (map quoted (did_you_mean ratio field valid_fields)) @ ''? ''
                     @ ''Please use exact GA4 field names.''
                else field_type @ '' '' @ quoted field @ '' is not recognized. ''
                     @ ''Valid '' @ py_lower field_type @ ''s include: ''
                     @ py_join '', '' (map quoted (take 5 valid_fields)) @ '', and more. ''
                     @ ''Please check GA4 documentation for exact field names.''))"
      by (rule validate_field_message [OF assms(4)])
    show "length (did_you_mean ratio field valid_fields) \<le> 3"
      by (rule dm [THEN conjunct1])
    show "\<forall>s \<in> set (did_you_mean ratio field valid_fields).
             s \<in> set valid_fields \<and> ratio (py_lower s) (py_lower field) \<ge> 5 / 10"
      by (rule dm [THEN conjunct2, THEN conjunct1])
    show "sorted_wrt (\<lambda>s s'. ratio (py_lower s) (py_lower field) \<ge> ratio (py_lower s') (py_lower field))
            (did_you_mean ratio field valid_fields)"
      by (rule dm [THEN conjunct2, THEN conjunct2])
  qed
qed

theorem resolution_failure_suggestions_witness:
  "alias_step seq_ratio [''Address'', ''Status Code'', ''Status'', ''Crawl Timestamp''] ''saless'' = None
   \<and> ''sesions'' \<notin> set (map fst CORE_METRICS)
   \<and> resolve_single_column seq_ratio [''Address'', ''Status Code'', ''Status'', ''Crawl Timestamp'']
        ''saless''
       = ResolutionError (unknown_field_message ''saless'' [''Address'', ''Status'']
           [''Address'', ''Status Code'', ''Status'', ''Crawl Timestamp''])
   \<and> validate_field seq_ratio (JStr ''sesions'') (map fst CORE_METRICS) ''Metric''
       = Inl (Raised ValidationError
           (''Metric'' @ '' '' @ quoted ''sesions'' @ '' is not valid. '' @ ''Did you mean: ''
            @ py_join '', '' (map quoted [''sessions'', ''sessionsPerUser'', ''engagedSessions''])
            @ ''? '' @ ''Please use exact GA4 field names.''))"
proof -
  let ?cols = "[''Address'', ''Status Code'', ''Status'', ''Crawl Timestamp'']"
  have h1: "alias_step seq_ratio ?cols ''saless'' = None"
    by (simp add: alias_step_def COLUMN_ALIASES_def str_eval)
  have h2: "\<forall>c \<in> set ?cols. py_lower c \<noteq> py_strip (py_lower ''saless'')"
    by (simp add: str_eval)
  have h4: "''sesions'' \<notin> set (map fst CORE_METRICS)"
    by (simp add: CORE_METRICS_def)
  note r = resolution_failure_suggestions [OF h1 h2 saless_no_fuzzy h4, of "''Metric''"]
  from r have "resolve_single_column seq_ratio ?cols ''saless''
       = ResolutionError (unknown_field_message ''saless''
           (get_suggestions seq_ratio ''saless'' ?cols 3) ?cols)"
    by (rule conjunct1)
  then have a: "resolve_single_column seq_ratio ?cols ''saless''
       = ResolutionError (unknown_field_message ''saless'' [''Address'', ''Status''] ?cols)"
    by (simp only: saless_suggestions)
  have b: "validate_field seq_ratio (JStr ''sesions'') (map fst CORE_METRICS) ''Metric''
       = Inl (Raised ValidationError
           (''Metric'' @ '' '' @ quoted ''sesions'' @ '' is not valid. '' @ ''Did you mean: ''
            @ py_join '', '' (map quoted [''sessions'', ''sessionsPerUser'', ''engagedSessions''])
            @ ''? '' @ ''Please use exact GA4 field names.''))"
    using r [THEN conjunct2, THEN conjunct2, THEN conjunct2, THEN conjunct2, THEN conjunct1]
    by (simp only: sesions_suggestions list.simps if_True simp_thms)
  from h1 h4 a b show ?thesis by (intro conjI)
qed

text \<open>
  The analytics validator does not use the cutoff 0.4: for the metric \<^verbatim>\<open>visits\<close> on the
  core tier, \<^verbatim>\<open>sessions\<close> has similarity 3/7, above 0.4, and a cutoff of 0.4 would suggest
  it, but the validator's list is empty.
\<close>

theorem analytics_cutoff_is_one_half:
  "''visits'' \<notin> set (map fst CORE_METRICS)
   \<and> seq_ratio ''sessions'' ''visits'' = 3 / 7
   \<and> get_close_matches seq_ratio ''visits'' (map py_lower (map fst CORE_METRICS)) 3 (4 / 10)
       = [''sessions'']
   \<and> did_you_mean seq_ratio ''visits'' (map fst CORE_METRICS) = []"
  by code_simp

subsection \<open>The default metric\<close>

text \<open>
  The parse stage falls back to the default metric when the extraction call raises, when
  it returns something that is not a dictionary, and when the dictionary it returns has
  no metrics. The answer of the validator for that metric is the text below.
\<close>

fun falls_back_to_default :: "py_exception + json \<Rightarrow> bool" where
  "falls_back_to_default (Inr (JDict result)) = omitted result ''metrics''"
| "falls_back_to_default other = True"

definition users_not_valid :: string where
  "users_not_valid =
     ''Metric '' @ quoted ''users'' @ '' is not valid. Did you mean: ''
     @ quoted ''newUsers'' @ '', '' @ quoted ''activeUsers''
     @ ''? Please use exact GA4 field names.''"

lemma sort_mset_cong: "mset xs = mset ys \<Longrightarrow> sort xs = sort ys"
  by (rule properties_for_sort) simp_all

lemma get_close_matches_perm:
  assumes "mset ps = mset qs"
  shows "get_close_matches ratio word ps n cutoff = get_close_matches ratio word qs n cutoff"
proof -
  have "mset (map (\<lambda>x. (ratio x word, x)) (filter (\<lambda>x. ratio x word \<ge> cutoff) ps))
      = mset (map (\<lambda>x. (ratio x word, x)) (filter (\<lambda>x. ratio x word \<ge> cutoff) qs))"
    using assms by simp
  then have "sort (map (\<lambda>x. (ratio x word, x)) (filter (\<lambda>x. ratio x word \<ge> cutoff) ps))
      = sort (map (\<lambda>x. (ratio x word, x)) (filter (\<lambda>x. ratio x word \<ge> cutoff) qs))"
    by (rule sort_mset_cong)
  then show ?thesis
    by (simp only: get_close_matches_def nlargest_def)
qed

lemma find_inj:
  assumes "inj_on f (set xs)" and "x \<in> set xs"
  shows "find (\<lambda>y. f y = f x) xs = Some x"
proof -
  from assms(2) have "find (\<lambda>y. f y = f x) xs \<noteq> None"
    by (auto simp: find_None_iff)
  then obtain y where y: "find (\<lambda>y. f y = f x) xs = Some y" by auto
  then have "y \<in> set xs" "f y = f x" by (auto dest: find_Some_mem)
  with assms have "y = x" by (auto dest: inj_onD)
  with y show ?thesis by simp
qed

lemma find_perm:
  assumes "inj_on f (set xs)" and "set xs = set ys"
  shows "find (\<lambda>y. f y = m) xs = find (\<lambda>y. f y = m) ys"
proof (cases "\<exists>x \<in> set xs. f x = m")
  case True
  then obtain x where x: "x \<in> set xs" "f x = m" by auto
  have "find (\<lambda>y. f y = f x) xs = Some x"
    using assms(1) x(1) by (rule find_inj)
  moreover have "find (\<lambda>y. f y = f x) ys = Some x"
    using assms x(1) by (intro find_inj) auto
  ultimately show ?thesis using x(2) by simp
next
  case False
  then have "find (\<lambda>y. f y = m) xs = None" "find (\<lambda>y. f y = m) ys = None"
    using assms(2) by (auto simp: find_None_iff)
  then show ?thesis by simp
qed

lemma did_you_mean_perm:
  assumes "mset fs = mset gs" and "inj_on py_lower (set gs)"
  shows "did_you_mean ratio field fs = did_you_mean ratio field gs"
proof -
  have s: "set fs = set gs" using assms(1) by (rule mset_eq_setD)
  have "mset (map py_lower fs) = mset (map py_lower gs)"
    using assms(1) by simp
  then have m: "get_close_matches ratio (py_lower field) (map py_lower fs) 3 (5 / 10)
      = get_close_matches ratio (py_lower field) (map py_lower gs) 3 (5 / 10)"
    by (rule get_close_matches_perm)
  have "original_case_step fs = original_case_step gs"
    using find_perm [of py_lower fs gs] assms(2) s
    by (auto simp: original_case_step_def fun_eq_iff)
  with m show ?thesis by (simp add: did_you_mean_def)
qed

lemma core_metrics_lower_distinct: "distinct (map py_lower (map fst CORE_METRICS))"
  by code_simp

lemma all_metrics_lower_distinct:
  "distinct (map py_lower (map fst CORE_METRICS @ map fst EXTENDED_METRICS))"
  by code_simp

lemma users_core: "did_you_mean seq_ratio ''users'' (map fst CORE_METRICS) = [''newUsers'', ''activeUsers'']"
  by code_simp

lemma users_all:
  "did_you_mean seq_ratio ''users'' (map fst CORE_METRICS @ map fst EXTENDED_METRICS)
   = [''newUsers'', ''activeUsers'']"
  by code_simp

lemma fallback_metrics:
  assumes "falls_back_to_default r"
  shows "dict_get (analytics_parse_query r) ''metrics'' (JList []) = JList [JStr ''users'']"
proof (cases r)
  case (Inl e)
  then show ?thesis by (simp add: default_parsed_def dict_get_def)
next
  case (Inr j)
  show ?thesis
  proof (cases j)
    case (JDict result)
    with Inr assms have "omitted result ''metrics''" by simp
    then show ?thesis
      using Inr JDict by (simp add: dict_get_ensure_field omitted_def)
  qed (simp_all add: Inr default_parsed_def dict_get_def)
qed

lemma check_extended_triggers_returns:
  assumes "py_iter metrics_json = Inr (map JStr metrics)"
      and "py_iter dimensions_json = Inr (map JStr dimensions)"
  shows "fst (check_extended_triggers st query metrics_json dimensions_json) = Inr ()"
  using assms
  by (simp add: check_extended_triggers_def first_member_strs split: option.splits)

lemma valid_metrics_users:
  assumes "\<forall>xs. distinct xs \<longrightarrow> mset (set_order env xs) = mset xs"
  shows "''users'' \<notin> set (valid_metrics_of env st)
       \<and> did_you_mean seq_ratio ''users'' (valid_metrics_of env st) = [''newUsers'', ''activeUsers'']"
proof (cases "extended_enabled st")
  case True
  let ?L = "map fst CORE_METRICS @ map fst EXTENDED_METRICS"
  have d: "distinct ?L" using all_metrics_lower_distinct by (metis distinct_map)
  have i: "inj_on py_lower (set ?L)" using all_metrics_lower_distinct by (metis distinct_map)
  have v: "valid_metrics_of env st = set_order env ?L"
    using True by (simp add: valid_metrics_of_def)
  have m: "mset (valid_metrics_of env st) = mset ?L"
    unfolding v using assms d by blast
  have "''users'' \<notin> set ?L" by (simp add: CORE_METRICS_def EXTENDED_METRICS_def)
  then have "''users'' \<notin> set (valid_metrics_of env st)"
    using mset_eq_setD [OF m] by simp
  moreover have "did_you_mean seq_ratio ''users'' (valid_metrics_of env st)
      = did_you_mean seq_ratio ''users'' ?L"
    using m i by (rule did_you_mean_perm)
  ultimately show ?thesis by (simp only: users_all simp_thms)
next
  case False
  let ?L = "map fst CORE_METRICS"
  have d: "distinct ?L" using core_metrics_lower_distinct by (metis distinct_map)
  have i: "inj_on py_lower (set ?L)" using core_metrics_lower_distinct by (metis distinct_map)
  have v: "valid_metrics_of env st = set_order env ?L"
    using False by (simp add: valid_metrics_of_def)
  have m: "mset (valid_metrics_of env st) = mset ?L"
    unfolding v using assms d by blast
  have "''users'' \<notin> set ?L" by (simp add: CORE_METRICS_def)
  then have "''users'' \<notin> set (valid_metrics_of env st)"
    using mset_eq_setD [OF m] by simp
  moreover have "did_you_mean seq_ratio ''users'' (valid_metrics_of env st)
      = did_you_mean seq_ratio ''users'' ?L"
    using m i by (rule did_you_mean_perm)
  ultimately show ?thesis by (simp only: users_core simp_thms)
qed

lemma validate_users:
  assumes "''users'' \<notin> set valid_fields"
      and "did_you_mean ratio ''users'' valid_fields = [''newUsers'', ''activeUsers'']"
  shows "validate_field ratio (JStr ''users'') valid_fields ''Metric''
         = Inl (Raised ValidationError users_not_valid)"
  using assms by (simp add: users_not_valid_def Let_def)


lemma resolve_and_validate_users:
  assumes "similarity env = seq_ratio"
      and "\<forall>xs. distinct xs \<longrightarrow> mset (set_order env xs) = mset xs"
  shows "fst (resolve_and_validate env st query (JList [JStr ''users'']) dimensions_json)
         = (case fst (check_extended_triggers st query (JList [JStr ''users'']) dimensions_json) of
              Inl e \<Rightarrow> Inl e
            | Inr u \<Rightarrow> Inl (Raised ValidationError users_not_valid))"
proof -
  obtain r st' where c: "check_extended_triggers st query (JList [JStr ''users'']) dimensions_json
      = (r, st')" by (cases "check_extended_triggers st query (JList [JStr ''users'']) dimensions_json")
  have v: "validate_field seq_ratio (JStr ''users'') (valid_metrics_of env st') ''Metric''
         = Inl (Raised ValidationError users_not_valid)"
    using valid_metrics_users [OF assms(2), of st'] by (intro validate_users) simp_all
  show ?thesis
    by (cases r) (simp_all add: resolve_and_validate_def c assms(1) v del: validate_field.simps)
qed

text \<open>
  C10 (as amended). The default metric \<^verbatim>\<open>users\<close> is in neither CORE_METRICS nor
  EXTENDED_METRICS. So no request with a property id whose parse falls back to the
  default metric reaches the execute stage: the only collaborator called is the language
  model of the parse stage, and the response has no data. When the tier check before the
  validation completes (the query mentions a trigger keyword, or the parsed dimensions can
  be iterated and looked up), the response is the validator's message with its two
  suggestions (\<^verbatim>\<open>newUsers\<close>, \<^verbatim>\<open>activeUsers\<close>), whichever tier is active and in whatever
  order Python iterates the allowlist. When the tier check raises, the response is the
  error text of that exception.
\<close>

theorem default_metric_fails_validation:
  assumes "str_truthy (py_or_str property_id default_property_id)"
      and "falls_back_to_default (llm_extract env query)"
      and "similarity env = seq_ratio"
      and "\<forall>xs. distinct xs \<longrightarrow> mset (set_order env xs) = mset xs"
  shows "''users'' \<notin> set (map fst CORE_METRICS) \<union> set (map fst EXTENDED_METRICS)
       \<and> fst (analytics_process env default_property_id query property_id json_requested)
          = analytics_error_response
              (case fst (check_extended_triggers reset_state query (JList [JStr ''users''])
                          (dict_get (analytics_parse_query (llm_extract env query))
                             ''dimensions'' (JList []))) of
                 Inl e \<Rightarrow> e
               | Inr u \<Rightarrow> Raised ValidationError users_not_valid)
       \<and> analytics_error_response (Raised ValidationError users_not_valid)
          = \<lparr>answer = users_not_valid, data = None, agent_used = ''analytics''\<rparr>
       \<and> data (fst (analytics_process env default_property_id query property_id json_requested))
          = None
       \<and> snd (snd (analytics_process env default_property_id query property_id json_requested))
          = [ChatExtract query]
       \<and> filter is_run_report
            (snd (snd (analytics_process env default_property_id query property_id
                         json_requested))) = []"
proof -
  let ?parsed = "analytics_parse_query (llm_extract env query)"
  let ?dims = "dict_get ?parsed ''dimensions'' (JList [])"
  let ?chk = "fst (check_extended_triggers reset_state query (JList [JStr ''users'']) ?dims)"
  let ?e = "case ?chk of Inl e \<Rightarrow> e | Inr u \<Rightarrow> Raised ValidationError users_not_valid"
  have u: "''users'' \<notin> set (map fst CORE_METRICS) \<union> set (map fst EXTENDED_METRICS)"
    by (simp add: CORE_METRICS_def EXTENDED_METRICS_def)
  have m: "dict_get ?parsed ''metrics'' (JList []) = JList [JStr ''users'']"
    using assms(2) by (rule fallback_metrics)
  obtain r st where rv: "resolve_and_validate env reset_state query (JList [JStr ''users'']) ?dims
      = (r, st)"
    by (cases "resolve_and_validate env reset_state query (JList [JStr ''users'']) ?dims")
  with resolve_and_validate_users [OF assms(3) assms(4), of reset_state query ?dims]
  have r: "r = Inl ?e" by (simp split: sum.splits)
  have p: "analytics_pipeline env default_property_id query property_id json_requested
      = (Inl ?e, st, [ChatExtract query])"
    using assms(1) by (simp add: analytics_pipeline_def Let_def m rv r)
  have q: "analytics_process env default_property_id query property_id json_requested
      = (analytics_error_response ?e, st, [ChatExtract query])"
    by (simp add: analytics_process_def p)
  have v: "analytics_error_response (Raised ValidationError users_not_valid)
          = \<lparr>answer = users_not_valid, data = None, agent_used = ''analytics''\<rparr>"
    by (simp add: analytics_error_response_def)
  have d: "data (analytics_error_response ?e) = None"
    by (simp add: analytics_error_response_def)
  show ?thesis
  proof (intro conjI)
    show "''users'' \<notin> set (map fst CORE_METRICS) \<union> set (map fst EXTENDED_METRICS)" by (rule u)
    show "fst (analytics_process env default_property_id query property_id json_requested)
          = analytics_error_response ?e" by (simp add: q)
    show "analytics_error_response (Raised ValidationError users_not_valid)
          = \<lparr>answer = users_not_valid, data = None, agent_used = ''analytics''\<rparr>" by (rule v)
    show "data (fst (analytics_process env default_property_id query property_id json_requested))
          = None" using d by (simp add: q)
    show "snd (snd (analytics_process env default_property_id query property_id json_requested))
          = [ChatExtract query]" by (simp add: q)
    show "filter is_run_report
            (snd (snd (analytics_process env default_property_id query property_id
                         json_requested))) = []" by (simp add: q)
  qed
qed

theorem default_metric_fails_validation_witness:
  "str_truthy (py_or_str (Some ''123456789'') None)
   \<and> falls_back_to_default (llm_extract sample_collaborators ''how many users'')
   \<and> fst (analytics_process sample_collaborators None ''how many users'' (Some ''123456789'') False)
      = \<lparr>answer = users_not_valid, data = None, agent_used = ''analytics''\<rparr>
   \<and> snd (snd (analytics_process sample_collaborators None ''how many users''
                  (Some ''123456789'') False))
      = [ChatExtract ''how many users'']"
proof -
  have h1: "str_truthy (py_or_str (Some ''123456789'') None)"
    by (simp add: str_truthy_def py_or_str_def)
  have h2: "falls_back_to_default (llm_extract sample_collaborators ''how many users'')"
    by (simp add: sample_collaborators_def)
  have h3: "fst (check_extended_triggers reset_state ''how many users'' (JList [JStr ''users''])
                 (dict_get (analytics_parse_query
                    (llm_extract sample_collaborators ''how many users'')) ''dimensions'' (JList [])))
           = Inr ()"
    by (rule check_extended_triggers_returns [of _ "[''users'']" _ "[]"])
       (simp_all add: sample_collaborators_def default_parsed_def dict_get_def)
  have h4: "similarity sample_collaborators = seq_ratio"
    by (simp add: sample_collaborators_def)
  have h5: "\<forall>xs. distinct xs \<longrightarrow> mset (set_order sample_collaborators xs) = mset xs"
    by (simp add: sample_collaborators_def)
  note r = default_metric_fails_validation [OF h1 h2 h4 h5, where json_requested = False]
  have a: "fst (analytics_process sample_collaborators None ''how many users'' (Some ''123456789'') False)
      = \<lparr>answer = users_not_valid, data = None, agent_used = ''analytics''\<rparr>"
    using r [THEN conjunct2, THEN conjunct1] r [THEN conjunct2, THEN conjunct2, THEN conjunct1]
    by (simp only: h3 sum.case)
  from h1 h2 a r [THEN conjunct2, THEN conjunct2, THEN conjunct2, THEN conjunct2, THEN conjunct1]
  show ?thesis by (intro conjI)
qed

text \<open>
  The claim as first stated fails when the tier check raises before the validator runs:
  an extraction that returns no metrics and \<^verbatim>\<open>null\<close> for the dimensions keeps the
  \<^verbatim>\<open>null\<close>, the loop over the dimensions raises a TypeError, and the response is the
  generic error text, with no suggestion.
\<close>

definition null_dimensions_collaborators :: collaborators where
  "null_dimensions_collaborators =
     sample_collaborators\<lparr>llm_extract := \<lambda>query. Inr (JDict [(''dimensions'', JNull)])\<rparr>"

theorem null_dimensions_generic_error:
  "str_truthy (py_or_str (Some ''123456789'') None)
   \<and> falls_back_to_default (llm_extract null_dimensions_collaborators ''how many users'')
   \<and> fst (analytics_process null_dimensions_collaborators None ''how many users''
            (Some ''123456789'') False)
      = \<lparr>answer = ''An error occurred processing your analytics query: ''
                   @ quoted ''NoneType'' @ '' object is not iterable'',
         data = None, agent_used = ''analytics''\<rparr>
   \<and> answer (fst (analytics_process null_dimensions_collaborators None ''how many users''
            (Some ''123456789'') False)) \<noteq> users_not_valid"
  by code_simp

section \<open>seo_agent.py: grouping and synthesis\<close>

text \<open>
  The table of the sheet, as \<^verbatim>\<open>SheetsClient.fetch_sheet\<close> builds it from
  \<^verbatim>\<open>get_all_values\<close>: the header row gives the column names (distinct), and every cell is
  a string, so every column has the dtype \<^verbatim>\<open>object\<close>. Filtering keeps a subset of the rows.
\<close>

record sheet_frame =
  sheet_columns :: "string list"
  sheet_rows :: "string list list"

text \<open>A frame after processing: grouping adds numeric columns.\<close>

record data_frame =
  df_columns :: "string list"
  df_rows :: "json list list"

definition frame_of_sheet :: "sheet_frame \<Rightarrow> data_frame" where
  "frame_of_sheet df =
     \<lparr>df_columns = sheet_columns df, df_rows = map (map JStr) (sheet_rows df)\<rparr>"

text \<open>\<^verbatim>\<open>df.empty\<close>: no rows or no columns.\<close>

definition df_empty :: "data_frame \<Rightarrow> bool" where
  "df_empty df = (df_columns df = [] \<or> df_rows df = [])"










subsection \<open>The response synthesizer\<close>

text \<open>\<^verbatim>\<open>result_df.to_dict('records')\<close>: one dictionary per row, from column name to value.\<close>

definition to_records :: "data_frame \<Rightarrow> json list" where
  "to_records df = map (\<lambda>row. JDict (zip (df_columns df) row)) (df_rows df)"

definition data_dict_of :: "data_frame \<Rightarrow> py_dict" where
  "data_dict_of df =
     (if df_empty df then [(''rows'', JList []), (''columns'', JList [])]
      else [(''rows'', JList (to_records df)),
            (''columns'', JList (map JStr (df_columns df))),
            (''total_rows'', JNum (of_nat (length (df_rows df))))])"

text \<open>\<^verbatim>\<open>SEOAgent._should_use_hybrid\<close>\<close>

definition seo_should_use_hybrid :: "data_frame \<Rightarrow> bool" where
  "seo_should_use_hybrid df =
     (if df_empty df then False
      else 10 \<le> length (df_rows df) \<and> length (df_rows df) \<le> 100)"

text \<open>
  \<^verbatim>\<open>_synthesize_response\<close>. \<open>nl_answer\<close> is what \<^verbatim>\<open>_generate_nl_summary\<close> returned: the
  language model's summary, or one of the agent's two fixed texts.
\<close>

definition seo_synthesize_response ::
  "string \<Rightarrow> data_frame \<Rightarrow> bool \<Rightarrow> py_exception + agent_response" where
  "seo_synthesize_response nl_answer result_df json_requested =
     (let data_dict = data_dict_of result_df
      in if json_requested
         then format_response ''Results returned in JSON format'' (Some data_dict) ''seo'' True
         else if seo_should_use_hybrid result_df
         then format_response nl_answer (Some data_dict) ''seo'' False
         else format_response nl_answer None ''seo'' False)"

section \<open>Properties of the SEO pipeline\<close>

subsection \<open>The payload of the synthesized response\<close>

lemma scalar_record:
  assumes "\<forall>v \<in> set row. nesting_depth v = 0"
  shows "nesting_depth (JDict (zip cols row)) \<le> 1"
proof (cases "zip cols row = []")
  case True then show ?thesis by simp
next
  case False
  have "\<forall>kv \<in> set (zip cols row). nesting_depth (snd kv) = 0"
    using assms by (auto dest: set_zip_rightD)
  then have "map (\<lambda>kv. nesting_depth (snd kv)) (zip cols row) = map (\<lambda>kv. 0) (zip cols row)"
    by (intro map_cong [OF refl]) simp
  then have "max_list (map (\<lambda>kv. nesting_depth (snd kv)) (zip cols row)) = max_list (map (\<lambda>kv. 0) (zip cols row))"
    by (simp only:)
  also have "\<dots> = 0" using False by (simp add: max_list_Max)
  finally show ?thesis using False by simp
qed

lemma max_list_le:
  assumes "\<forall>x \<in> set xs. x \<le> (b::nat)"
  shows "max_list xs \<le> b"
proof (cases "xs = []")
  case True then show ?thesis by simp
next
  case False then show ?thesis using assms by (simp add: max_list_Max)
qed

lemma data_dict_depth:
  assumes "\<forall>row \<in> set (df_rows df). \<forall>v \<in> set row. nesting_depth v = 0"
  shows "nesting_depth (JDict (data_dict_of df)) \<le> 3"
proof -
  have "\<forall>x \<in> set (map nesting_depth (to_records df)). x \<le> 1"
  proof
    fix x assume "x \<in> set (map nesting_depth (to_records df))"
    then obtain row where r: "row \<in> set (df_rows df)"
      and x: "x = nesting_depth (JDict (zip (df_columns df) row))"
      by (auto simp add: to_records_def simp del: nesting_depth.simps)
    from r assms have "\<forall>v \<in> set row. nesting_depth v = 0" by blast
    from scalar_record [OF this] x show "x \<le> 1" by simp
  qed
  then have recs: "max_list (map nesting_depth (to_records df)) \<le> 1"
    by (rule max_list_le)
  have cols: "max_list (map nesting_depth (map JStr (df_columns df))) \<le> 1"
    by (intro max_list_le) auto
  show ?thesis
    using recs cols unfolding data_dict_of_def
    by (simp del: max_list.simps add: max_list_le)
qed

text \<open>
  What the synthesizer attaches when JSON was not asked for, on a non-empty result whose
  cells are strings and numbers: the band of the agent's own rule is 10 to 100 rows, and
  the formatter it then calls attaches a payload of this shape only above 10 rows.
\<close>

lemma seo_payload_band:
  assumes ne: "\<not> df_empty df"
    and sc: "\<forall>row \<in> set (df_rows df). \<forall>v \<in> set row. nesting_depth v = 0"
  shows "seo_synthesize_response nl df False =
     Inr \<lparr>answer = nl,
          data = (if 11 \<le> length (df_rows df) \<and> length (df_rows df) \<le> 100
                  then Some (data_dict_of df) else None),
          agent_used = ''seo''\<rparr>"
proof -
  have d: "\<not> nesting_depth (JDict (data_dict_of df)) > 3"
    using data_dict_depth [OF sc] by simp
  have rc: "row_count_of (data_dict_of df) = Inr (length (df_rows df))"
    using ne by (simp add: row_count_of_def data_dict_of_def to_records_def)
  have sr: "source_count_of (data_dict_of df) = 0"
    using ne by (simp add: source_count_of_def data_dict_of_def)
  have nz: "data_dict_of df \<noteq> []"
    by (simp add: data_dict_of_def)
  have h: "rf_should_use_hybrid (Some (data_dict_of df)) = Inr (length (df_rows df) > 10)"
    using d rc sr nz by (simp add: rf_should_use_hybrid_rules del: nesting_depth.simps)
  show ?thesis
    using h ne
    by (auto simp add: seo_synthesize_response_def seo_should_use_hybrid_def
        format_response_def format_hybrid_def format_natural_language_def
        rf_should_use_hybrid_def)
qed

definition ten_row_result :: data_frame where
  "ten_row_result =
     frame_of_sheet
       \<lparr>sheet_columns = [''Address'', ''Status Code''],
        sheet_rows = map (\<lambda>c. [''/page-'' @ [c], ''200'']) ''0123456789''\<rparr>"

text \<open>
  C7. When JSON was not asked for and the result is not empty, the payload is attached if
  and only if the number of rows is between 10 and 100. This fails at exactly 10 rows:
  \<^verbatim>\<open>_should_use_hybrid\<close> of the agent accepts 10 rows and passes the payload to
  \<^verbatim>\<open>format_response\<close>, whose own rule asks for more than 10 rows, so the response has no
  data.
\<close>

theorem seo_ten_rows_payload_dropped:
  "length (df_rows ten_row_result) = 10
   \<and> seo_should_use_hybrid ten_row_result
   \<and> seo_synthesize_response ''Found 10 pages.'' ten_row_result False
       = Inr \<lparr>answer = ''Found 10 pages.'', data = None, agent_used = ''seo''\<rparr>"
  by code_simp

subsection \<open>Grouping\<close>












section \<open>orchestrator.py: the multi-agent pipeline\<close>

text \<open>
  The two agents as the orchestrator sees them: \<^verbatim>\<open>process\<close> of each, which returns a
  response or raises, or nothing when the agent could not be initialized; and the chat
  call that synthesizes the unified answer from the original query and the answers of
  the agents.
\<close>

record agents =
  analytics_agent :: "(json \<Rightarrow> string option \<Rightarrow> bool \<Rightarrow> py_exception + agent_response) option"
  seo_agent :: "(json \<Rightarrow> bool \<Rightarrow> py_exception + agent_response) option"
  orchestrator_default_property_id :: "string option"
  synthesis_chat :: "string \<Rightarrow> string list \<Rightarrow> py_exception + string"

definition INTENT_ANALYTICS :: string where
  "INTENT_ANALYTICS = ''analytics''"

definition INTENT_SEO :: string where
  "INTENT_SEO = ''seo''"

definition INTENT_MULTI :: string where
  "INTENT_MULTI = ''multi-agent''"

definition route_to_analytics ::
  "agents \<Rightarrow> json \<Rightarrow> string option \<Rightarrow> bool \<Rightarrow> py_exception + agent_response" where
  "route_to_analytics env query property_id json_requested =
     (case analytics_agent env of
        None \<Rightarrow>
          Inl (Raised NotImplementedError
                (''Analytics agent is not yet implemented. ''
                 @ ''Please implement the analytics_agent module.''))
      | Some process \<Rightarrow>
          (case process query (py_or_str property_id (orchestrator_default_property_id env))
                  json_requested of
             Inl e \<Rightarrow> Inl e
           | Inr result \<Rightarrow> Inr (result\<lparr>agent_used := INTENT_ANALYTICS\<rparr>)))"

definition route_to_seo :: "agents \<Rightarrow> json \<Rightarrow> bool \<Rightarrow> py_exception + agent_response" where
  "route_to_seo env query json_requested =
     (case seo_agent env of
        None \<Rightarrow>
          Inl (Raised NotImplementedError
                (''SEO agent is not yet implemented. ''
                 @ ''Please implement the seo_agent module.''))
      | Some process \<Rightarrow>
          (case process query json_requested of
             Inl e \<Rightarrow> Inl e
           | Inr result \<Rightarrow> Inr (result\<lparr>agent_used := INTENT_SEO\<rparr>)))"

text \<open>
  What one sub-task gives to \<^verbatim>\<open>asyncio.gather\<close>, which is called with
  \<^verbatim>\<open>return_exceptions=True\<close>: the exception it raised, \<^verbatim>\<open>None\<close>, or the response of its agent.
\<close>

datatype task_outcome =
    Failed py_exception
  | NoResult
  | Returned agent_response

text \<open>
  \<^verbatim>\<open>execute_task\<close>. A task is an element of the list the decomposition returned; one that
  is not a dictionary has no \<^verbatim>\<open>get\<close>.
\<close>

fun execute_task :: "agents \<Rightarrow> string option \<Rightarrow> bool \<Rightarrow> json \<Rightarrow> task_outcome" where
  "execute_task env property_id json_requested (JDict task) =
     (let agent_type = dict_get task ''agent'' JNull;
          sub_query = dict_get task ''sub_query'' JNull
      in if agent_type = JStr ''analytics'' then
           (case route_to_analytics env sub_query property_id json_requested of
              Inl e \<Rightarrow> Failed e
            | Inr result \<Rightarrow> Returned result)
         else if agent_type = JStr ''seo'' then
           (case route_to_seo env sub_query json_requested of
              Inl e \<Rightarrow> Failed e
            | Inr result \<Rightarrow> Returned result)
         else NoResult)"
| "execute_task env property_id json_requested task = Failed (no_attribute task ''get'')"

text \<open>
  \<^verbatim>\<open>asyncio.gather\<close>: every sub-task has a slot at its position in the list of the
  awaitables, a sub-task that completes puts its outcome into its slot, and the call
  returns the slots, in the order of the awaitables, once all are filled.
  \<open>completion_order\<close> lists the positions of the sub-tasks in the order in which they
  complete; the call does not return (\<open>None\<close>) while a slot is empty.
\<close>

definition complete :: "'a list \<Rightarrow> nat \<Rightarrow> 'a option list \<Rightarrow> 'a option list" where
  "complete outcomes i slots = slots[i := Some (outcomes ! i)]"

definition gather :: "nat list \<Rightarrow> 'a list \<Rightarrow> 'a list option" where
  "gather completion_order outcomes =
     those (fold (complete outcomes) completion_order (replicate (length outcomes) None))"

text \<open>\<^verbatim>\<open>[r for r in results if r is not None and not isinstance(r, Exception)]\<close>\<close>

fun valid_results :: "task_outcome list \<Rightarrow> agent_response list" where
  "valid_results [] = []"
| "valid_results (Returned r # results) = r # valid_results results"
| "valid_results (other # results) = valid_results results"

definition execute_tasks_parallel ::
  "agents \<Rightarrow> nat list \<Rightarrow> json list \<Rightarrow> string option \<Rightarrow> bool \<Rightarrow> agent_response list option" where
  "execute_tasks_parallel env completion_order tasks property_id json_requested =
     map_option valid_results
       (gather completion_order (map (execute_task env property_id json_requested) tasks))"

text \<open>The decimal digits of a number, as an f-string prints it.\<close>

fun decimal :: "nat \<Rightarrow> string" where
  "decimal n =
     (if n < 10 then [''0123456789'' ! n]
      else decimal (n div 10) @ [''0123456789'' ! (n mod 10)])"

text \<open>
  The loop of \<^verbatim>\<open>_aggregate_results\<close> over \<^verbatim>\<open>enumerate(results)\<close>: the state is
  (all_answers, all_data).
\<close>

definition collect_step ::
  "nat \<times> agent_response \<Rightarrow> string list \<times> py_dict \<Rightarrow> string list \<times> py_dict" where
  "collect_step ir acc =
     (let i = fst ir; result = snd ir;
          all_answers = (if answer result \<noteq> [] then fst acc @ [answer result] else fst acc);
          all_data =
            (case data result of
               None \<Rightarrow> snd acc
             | Some d \<Rightarrow>
                 if d \<noteq> [] then AList.update (''source_'' @ decimal (i + 1)) (JDict d) (snd acc)
                 else snd acc)
      in (all_answers, all_data))"

definition collect :: "agent_response list \<Rightarrow> string list \<times> py_dict" where
  "collect results = fold collect_step (enumerate 0 results) ([], [])"

text \<open>\<^verbatim>\<open>Orchestrator._should_use_hybrid\<close>: more than 5 rows over all the sources.\<close>

fun total_rows :: "py_dict \<Rightarrow> py_exception + nat" where
  "total_rows [] = Inr 0"
| "total_rows ((k, JDict source_data) # rest) =
     (if dict_contains source_data ''rows''
      then (case py_len (dict_get source_data ''rows'' (JList [])) of
              Inl e \<Rightarrow> Inl e
            | Inr n \<Rightarrow> (case total_rows rest of Inl e \<Rightarrow> Inl e | Inr m \<Rightarrow> Inr (n + m)))
      else total_rows rest)"
| "total_rows ((k, v) # rest) = total_rows rest"

definition orchestrator_should_use_hybrid :: "py_dict \<Rightarrow> py_exception + bool" where
  "orchestrator_should_use_hybrid dat =
     (if dat = [] then Inr False
      else (case total_rows dat of Inl e \<Rightarrow> Inl e | Inr n \<Rightarrow> Inr (n > 5)))"

text \<open>\<^verbatim>\<open>_aggregate_results\<close>: the answer and the data of the unified response.\<close>

definition aggregate_results ::
  "agents \<Rightarrow> string \<Rightarrow> agent_response list \<Rightarrow> bool \<Rightarrow> py_exception + string \<times> py_dict option" where
  "aggregate_results env original_query results json_requested =
     (if results = [] then Inr (''Unable to process query with available agents.'', None)
      else
        (let all_answers = fst (collect results);
             all_data = snd (collect results)
         in if json_requested
            then Inr (''Combined results from analytics and SEO data returned in JSON format'',
                      if all_data \<noteq> [] then Some all_data else None)
            else
              (case synthesis_chat env original_query all_answers of
                 Inl e \<Rightarrow> Inl e
               | Inr unified_answer \<Rightarrow>
                   if all_data = [] then Inr (unified_answer, None)
                   else
                     (case orchestrator_should_use_hybrid all_data of
                        Inl e \<Rightarrow> Inl e
                      | Inr include_data \<Rightarrow>
                          Inr (unified_answer, if include_data then Some all_data else None)))))"

text \<open>
  The part of \<^verbatim>\<open>_route_to_multi_agent\<close> after the decomposition: the sub-tasks are run,
  their results aggregated, and the response is marked as the multi-agent one.
\<close>

definition run_tasks ::
  "agents \<Rightarrow> nat list \<Rightarrow> string \<Rightarrow> json list \<Rightarrow> string option \<Rightarrow> bool
   \<Rightarrow> (py_exception + agent_response) option" where
  "run_tasks env completion_order query tasks property_id json_requested =
     (case execute_tasks_parallel env completion_order tasks property_id json_requested of
        None \<Rightarrow> None
      | Some results \<Rightarrow>
          Some (case aggregate_results env query results json_requested of
                  Inl e \<Rightarrow> Inl e
                | Inr aggregated \<Rightarrow>
                    Inr \<lparr>answer = fst aggregated, data = snd aggregated,
                         agent_used = INTENT_MULTI\<rparr>))"

section \<open>Properties of the multi-agent pipeline\<close>

declare decimal.simps [simp del]

lemma decimal_digits: "decimal (Suc 0) = ''1''" "decimal (Suc (Suc 0)) = ''2''"
  by (simp_all add: decimal.simps)

lemma fold_complete:
  "length (fold (complete outcomes) order slots) = length slots
   \<and> (\<forall>i < length slots.
         fold (complete outcomes) order slots ! i
         = (if i \<in> set order then Some (outcomes ! i) else slots ! i))"
proof (induction order arbitrary: slots)
  case Nil
  then show ?case by simp
next
  case (Cons j order)
  show ?case
    using Cons.IH [of "complete outcomes j slots"]
    by (auto simp add: complete_def nth_list_update)
qed

lemma those_map_Some: "those (map Some xs) = Some xs"
  by (induction xs) simp_all

lemma gather_all:
  assumes "set completion_order = {0..<length outcomes}"
  shows "gather completion_order outcomes = Some outcomes"
proof -
  let ?slots = "fold (complete outcomes) completion_order (replicate (length outcomes) None)"
  have l: "length ?slots = length outcomes"
    using fold_complete [of outcomes completion_order "replicate (length outcomes) None"] by simp
  have n: "?slots ! i = Some (outcomes ! i)" if "i < length outcomes" for i
    using fold_complete [of outcomes completion_order "replicate (length outcomes) None"] that assms
    by simp
  have "?slots = map Some outcomes"
    by (rule nth_equalityI) (simp_all add: l n)
  then show ?thesis
    by (simp add: gather_def those_map_Some)
qed

lemma two_slots: "{0..<length (map f [task_a, task_b])} = {0, 1::nat}"
  by auto

lemma gather_two:
  assumes order: "set completion_order = {0, 1}"
  shows "gather completion_order [x, y] = Some [x, y]"
proof -
  have "set completion_order = {0..<length [x, y]}"
    using two_slots [of id x y] by (simp only: order list.map id_apply)
  then show ?thesis by (rule gather_all)
qed

lemma collect_two:
  assumes da: "data result_a = Some data_a" "data_a \<noteq> []"
      and db: "data result_b = Some data_b" "data_b \<noteq> []"
  shows "snd (collect [result_a, result_b]) = [(''source_1'', JDict data_a), (''source_2'', JDict data_b)]"
    using da db by (simp add: collect_def collect_step_def Let_def decimal_digits)

lemma aggregate_two:
  assumes c: "snd (collect results) = all_data" and ne: "results \<noteq> []" "all_data \<noteq> []"
  shows "aggregate_results env query results json_requested
       = (if json_requested then
            Inr (''Combined results from analytics and SEO data returned in JSON format'',
                 Some all_data)
          else
            (case synthesis_chat env query (fst (collect results)) of
               Inl e \<Rightarrow> Inl e
             | Inr unified_answer \<Rightarrow>
                 (case total_rows all_data of
                    Inl e \<Rightarrow> Inl e
                  | Inr n \<Rightarrow> Inr (unified_answer, if n > 5 then Some all_data else None))))"
proof (cases json_requested)
  case True
  then show ?thesis using ne by (simp add: aggregate_results_def Let_def c)
next
  case False
  show ?thesis
  proof (cases "synthesis_chat env query (fst (collect results))")
    case (Inl e)
    then show ?thesis using False ne by (simp add: aggregate_results_def Let_def c)
  next
    case (Inr u)
    show ?thesis
    proof (cases "total_rows all_data")
      case (Inl e)
      then show ?thesis
        using False ne Inr
        by (simp add: aggregate_results_def Let_def c orchestrator_should_use_hybrid_def)
    next
      case (Inr n)
      then show ?thesis
        using False ne \<open>synthesis_chat env query (fst (collect results)) = Inr u\<close>
        by (simp add: aggregate_results_def Let_def c orchestrator_should_use_hybrid_def)
    qed
  qed
qed

text \<open>
  C9. For a decomposition into two sub-tasks that both return a response with non-empty
  data, the results reach the aggregation in the order of the sub-tasks, whatever the
  order in which the two calls complete, and the data of the aggregated response maps
  \<^verbatim>\<open>source_1\<close> to the data of the first sub-task and \<^verbatim>\<open>source_2\<close> to the data of the second.
  When JSON was asked for, that mapping is the data of the response; otherwise it is
  attached when the sources have more than 5 rows together, and the answer is the one the
  synthesis call returned.
\<close>

theorem aggregation_in_submission_order:
  assumes a: "execute_task env property_id json_requested task_a = Returned result_a"
      and b: "execute_task env property_id json_requested task_b = Returned result_b"
      and da: "data result_a = Some data_a" "data_a \<noteq> []"
      and db: "data result_b = Some data_b" "data_b \<noteq> []"
      and order: "set completion_order = {0, 1}"
  shows "execute_tasks_parallel env completion_order [task_a, task_b] property_id json_requested
           = Some [result_a, result_b]
       \<and> snd (collect [result_a, result_b])
           = [(''source_1'', JDict data_a), (''source_2'', JDict data_b)]
       \<and> run_tasks env completion_order query [task_a, task_b] property_id json_requested
           = Some
               (if json_requested then
                  Inr \<lparr>answer = ''Combined results from analytics and SEO data returned in JSON format'',
                       data = Some [(''source_1'', JDict data_a), (''source_2'', JDict data_b)],
                       agent_used = ''multi-agent''\<rparr>
                else
                  (case synthesis_chat env query (fst (collect [result_a, result_b])) of
                     Inl e \<Rightarrow> Inl e
                   | Inr unified_answer \<Rightarrow>
                       (case total_rows [(''source_1'', JDict data_a), (''source_2'', JDict data_b)] of
                          Inl e \<Rightarrow> Inl e
                        | Inr n \<Rightarrow>
                            Inr \<lparr>answer = unified_answer,
                                 data = (if n > 5
                                         then Some [(''source_1'', JDict data_a),
                                                    (''source_2'', JDict data_b)]
                                         else None),
                                 agent_used = ''multi-agent''\<rparr>)))"
proof -
  let ?all = "[(''source_1'', JDict data_a), (''source_2'', JDict data_b)]"
  have e: "execute_tasks_parallel env completion_order [task_a, task_b] property_id json_requested
           = Some [result_a, result_b]"
    by (simp add: execute_tasks_parallel_def gather_two [OF order] a b)
  have c: "snd (collect [result_a, result_b]) = ?all"
    using da db by (rule collect_two)
  note g = aggregate_two [OF c, of env query]
  have r: "run_tasks env completion_order query [task_a, task_b] property_id json_requested
           = Some
               (if json_requested then
                  Inr \<lparr>answer = ''Combined results from analytics and SEO data returned in JSON format'',
                       data = Some ?all, agent_used = ''multi-agent''\<rparr>
                else
                  (case synthesis_chat env query (fst (collect [result_a, result_b])) of
                     Inl e \<Rightarrow> Inl e
                   | Inr unified_answer \<Rightarrow>
                       (case total_rows ?all of
                          Inl e \<Rightarrow> Inl e
                        | Inr n \<Rightarrow>
                            Inr \<lparr>answer = unified_answer,
                                 data = (if n > 5 then Some ?all else None),
                                 agent_used = ''multi-agent''\<rparr>)))"
  proof (cases json_requested)
    case True
    have "aggregate_results env query [result_a, result_b] True
        = Inr (''Combined results from analytics and SEO data returned in JSON format'', Some ?all)"
      using g [of True] by simp
    then show ?thesis
      using True e by (simp add: run_tasks_def INTENT_MULTI_def)
  next
    case False
    have f: "aggregate_results env query [result_a, result_b] False
        = (case synthesis_chat env query (fst (collect [result_a, result_b])) of
               Inl e \<Rightarrow> Inl e
             | Inr unified_answer \<Rightarrow>
                 (case total_rows ?all of
                    Inl e \<Rightarrow> Inl e
                  | Inr n \<Rightarrow> Inr (unified_answer, if n > 5 then Some ?all else None)))"
      using g [of False] by simp
    show ?thesis
    proof (cases "synthesis_chat env query (fst (collect [result_a, result_b]))")
      case (Inl x)
      then show ?thesis
        using False e f by (simp add: run_tasks_def del: total_rows.simps)
    next
      case (Inr u)
      show ?thesis
      proof (cases "total_rows ?all")
        case (Inl x)
        then show ?thesis
          using False e f Inr by (simp add: run_tasks_def del: total_rows.simps)
      next
        case (Inr n)
        then show ?thesis
          using False e f \<open>synthesis_chat env query (fst (collect [result_a, result_b])) = Inr u\<close>
          by (simp add: run_tasks_def INTENT_MULTI_def del: total_rows.simps)
      qed
    qed
  qed
  from e c r show ?thesis by (intro conjI)
qed

text \<open>Two sub-tasks, one for each agent, and agents that answer each with one row.\<close>

definition analytics_sample_data :: py_dict where
  "analytics_sample_data =
     [(''rows'', JList [JDict [(''sessions'', JStr ''1200'')]]), (''row_count'', JNum 1)]"

definition seo_sample_data :: py_dict where
  "seo_sample_data =
     [(''rows'', JList [JDict [(''Address'', JStr ''/pricing'')]]),
      (''columns'', JList [JStr ''Address'']),
      (''total_rows'', JNum 1)]"

definition sample_agents :: agents where
  "sample_agents =
     \<lparr>analytics_agent = Some (\<lambda>query property_id json_requested.
          Inr \<lparr>answer = ''Results returned in JSON format'',
               data = Some analytics_sample_data,
               agent_used = ''analytics''\<rparr>),
      seo_agent = Some (\<lambda>query json_requested.
          Inr \<lparr>answer = ''Results returned in JSON format'',
               data = Some seo_sample_data,
               agent_used = ''seo''\<rparr>),
      orchestrator_default_property_id = None,
      synthesis_chat = (\<lambda>query answers. Inr ''Traffic is healthy and one page needs a title.'')\<rparr>"

definition sample_tasks :: "json list" where
  "sample_tasks =
     [JDict [(''agent'', JStr ''analytics''), (''sub_query'', JStr ''sessions last week'')],
      JDict [(''agent'', JStr ''seo''), (''sub_query'', JStr ''pages without a title'')]]"

theorem aggregation_in_submission_order_witness:
  "set [1, 0 :: nat] = {0, 1}
   \<and> run_tasks sample_agents [1, 0] ''traffic and titles'' sample_tasks (Some ''123456789'') True
       = Some (Inr \<lparr>answer = ''Combined results from analytics and SEO data returned in JSON format'',
                    data = Some [(''source_1'', JDict analytics_sample_data),
                                 (''source_2'', JDict seo_sample_data)],
                    agent_used = ''multi-agent''\<rparr>)
   \<and> run_tasks sample_agents [0, 1] ''traffic and titles'' sample_tasks (Some ''123456789'') True
       = run_tasks sample_agents [1, 0] ''traffic and titles'' sample_tasks (Some ''123456789'') True"
proof -
  let ?a = "JDict [(''agent'', JStr ''analytics''), (''sub_query'', JStr ''sessions last week'')]"
  let ?b = "JDict [(''agent'', JStr ''seo''), (''sub_query'', JStr ''pages without a title'')]"
  let ?ra = "\<lparr>answer = ''Results returned in JSON format'', data = Some analytics_sample_data,
              agent_used = ''analytics''\<rparr>"
  let ?rb = "\<lparr>answer = ''Results returned in JSON format'', data = Some seo_sample_data,
              agent_used = ''seo''\<rparr>"
  have a: "execute_task sample_agents (Some ''123456789'') True ?a = Returned ?ra"
    by (simp add: sample_agents_def route_to_analytics_def dict_get_def INTENT_ANALYTICS_def
        analytics_sample_data_def)
  have b: "execute_task sample_agents (Some ''123456789'') True ?b = Returned ?rb"
    by (simp add: sample_agents_def route_to_seo_def dict_get_def INTENT_SEO_def
        seo_sample_data_def)
  have da: "data ?ra = Some analytics_sample_data" "analytics_sample_data \<noteq> []"
    by (simp_all add: analytics_sample_data_def)
  have db: "data ?rb = Some seo_sample_data" "seo_sample_data \<noteq> []"
    by (simp_all add: seo_sample_data_def)
  have o1: "set [1, 0 :: nat] = {0, 1}" by auto
  have o2: "set [0, 1 :: nat] = {0, 1}" by simp
  note r1 = aggregation_in_submission_order [OF a b da db o1, of "''traffic and titles''"]
  note r2 = aggregation_in_submission_order [OF a b da db o2, of "''traffic and titles''"]
  have x1: "run_tasks sample_agents [1, 0] ''traffic and titles'' sample_tasks (Some ''123456789'') True
       = Some (Inr \<lparr>answer = ''Combined results from analytics and SEO data returned in JSON format'',
                    data = Some [(''source_1'', JDict analytics_sample_data),
                                 (''source_2'', JDict seo_sample_data)],
                    agent_used = ''multi-agent''\<rparr>)"
    using r1 [THEN conjunct2, THEN conjunct2] by (simp only: sample_tasks_def if_True)
  have x2: "run_tasks sample_agents [0, 1] ''traffic and titles'' sample_tasks (Some ''123456789'') True
       = Some (Inr \<lparr>answer = ''Combined results from analytics and SEO data returned in JSON format'',
                    data = Some [(''source_1'', JDict analytics_sample_data),
                                 (''source_2'', JDict seo_sample_data)],
                    agent_used = ''multi-agent''\<rparr>)"
    using r2 [THEN conjunct2, THEN conjunct2] by (simp only: sample_tasks_def if_True)
  from o1 x1 x2 show ?thesis by (simp only: simp_thms)
qed

end
